theory Spec2Isabelle
  imports Main
begin

section \<open>JavaScript strings\<close>

text \<open>
  Strings are lists of characters. The inputs of interest (dates, month names) are ASCII;
  case conversion is the ASCII one, and white space is the ASCII white space that both
  \<^verbatim>\<open>trim\<close> and the regular expression class \<^verbatim>\<open>\s\<close> accept.
\<close>

definition lowerLetters :: string where
  "lowerLetters = ''abcdefghijklmnopqrstuvwxyz''"

definition upperLetters :: string where
  "upperLetters = ''ABCDEFGHIJKLMNOPQRSTUVWXYZ''"

definition toUpperChar :: "char \<Rightarrow> char" where
  "toUpperChar c = (case map_of (zip lowerLetters upperLetters) c of Some u \<Rightarrow> u | None \<Rightarrow> c)"

definition toLowerChar :: "char \<Rightarrow> char" where
  "toLowerChar c = (case map_of (zip upperLetters lowerLetters) c of Some l \<Rightarrow> l | None \<Rightarrow> c)"

definition toUpperCase :: "string \<Rightarrow> string" where
  "toUpperCase s = map toUpperChar s"

definition toLowerCase :: "string \<Rightarrow> string" where
  "toLowerCase s = map toLowerChar s"

definition isSpace :: "char \<Rightarrow> bool" where
  "isSpace c = (c \<in> set [CHR '' '', CHR 0x09, CHR 0x0A, CHR 0x0B, CHR 0x0C, CHR 0x0D])"

definition trim :: "string \<Rightarrow> string" where
  "trim s = rev (dropWhile isSpace (rev (dropWhile isSpace s)))"

definition isPrefix :: "string \<Rightarrow> string \<Rightarrow> bool" where
  "isPrefix p s = (take (length p) s = p)"

text \<open>\<^verbatim>\<open>s.split(sep)\<close> for a separator that is one character out of a class.\<close>

fun splitOn :: "(char \<Rightarrow> bool) \<Rightarrow> string \<Rightarrow> string list" where
  "splitOn p [] = [[]]"
| "splitOn p (c # cs) =
     (if p c then [] # splitOn p cs
      else (case splitOn p cs of x # xs \<Rightarrow> (c # x) # xs | [] \<Rightarrow> [[c]]))"

text \<open>\<^verbatim>\<open>s.includes(t)\<close> for a substring \<open>t\<close>.\<close>

fun includesStr :: "string \<Rightarrow> string \<Rightarrow> bool" where
  "includesStr [] t = (t = [])"
| "includesStr (c # cs) t = (isPrefix t (c # cs) \<or> includesStr cs t)"

text \<open>\<^verbatim>\<open>a > b\<close> on strings: lexicographic on the character codes.\<close>

fun strGreater :: "string \<Rightarrow> string \<Rightarrow> bool" where
  "strGreater [] t = False"
| "strGreater (c # cs) [] = True"
| "strGreater (c # cs) (d # ds) =
     ((of_char c :: nat) > of_char d \<or> (c = d \<and> strGreater cs ds))"

text \<open>\<^verbatim>\<open>a || b\<close> on values that are a string or absent: the empty string is falsy.\<close>

definition truthy :: "string option \<Rightarrow> bool" where
  "truthy v = (case v of Some s \<Rightarrow> s \<noteq> [] | None \<Rightarrow> False)"

definition orElse :: "string option \<Rightarrow> string option \<Rightarrow> string option" where
  "orElse a b = (if truthy a then a else b)"

section \<open>JavaScript numbers\<close>

text \<open>
  The numbers of the code are integers well inside the exact range of a double; a number
  is an \<open>int option\<close>, \<open>None\<close> standing for \<^verbatim>\<open>NaN\<close>. A comparison with
  \<^verbatim>\<open>NaN\<close> is false.
\<close>

definition digitChars :: string where
  "digitChars = ''0123456789''"

definition isDigit :: "char \<Rightarrow> bool" where
  "isDigit c = (c \<in> set digitChars)"

definition digitVal :: "char \<Rightarrow> nat" where
  "digitVal c = of_char c - 48"

definition digitChar :: "nat \<Rightarrow> char" where
  "digitChar k = digitChars ! k"

definition digitsToNat :: "string \<Rightarrow> nat" where
  "digitsToNat ds = foldl (\<lambda>a c. 10 * a + digitVal c) 0 ds"

definition isHexDigit :: "char \<Rightarrow> bool" where
  "isHexDigit c = (c \<in> set ''0123456789abcdefABCDEF'')"

definition hexVal :: "char \<Rightarrow> nat" where
  "hexVal c = (if isDigit c then digitVal c
               else if c \<in> set ''abcdef'' then of_char c - 87 else of_char c - 55)"

definition hexToNat :: "string \<Rightarrow> nat" where
  "hexToNat ds = foldl (\<lambda>a c. 16 * a + hexVal c) 0 ds"

text \<open>
  \<^verbatim>\<open>parseInt(s)\<close>: leading white space, an optional sign, then the longest prefix of
  digits (hexadecimal after \<^verbatim>\<open>0x\<close>); \<^verbatim>\<open>NaN\<close> when there is no digit.
\<close>

definition parseInt :: "string \<Rightarrow> int option" where
  "parseInt s =
     (let t = dropWhile isSpace s;
          signed = (t \<noteq> [] \<and> (hd t = CHR ''-'' \<or> hd t = CHR ''+''));
          sgn = (if t \<noteq> [] \<and> hd t = CHR ''-'' then - 1 else 1);
          u = (if signed then tl t else t)
      in if take 2 u = ''0x'' \<or> take 2 u = ''0X'' then
           (let hs = takeWhile isHexDigit (drop 2 u)
            in if hs = [] then None else Some (sgn * int (hexToNat hs)))
         else
           (let ds = takeWhile isDigit u
            in if ds = [] then None else Some (sgn * int (digitsToNat ds))))"

fun natToDigits :: "nat \<Rightarrow> string" where
  "natToDigits n = (if n < 10 then [digitChar n] else natToDigits (n div 10) @ [digitChar (n mod 10)])"

declare natToDigits.simps [simp del]

text \<open>\<^verbatim>\<open>String(n)\<close> and \<^verbatim>\<open>n.toString()\<close> for an integer.\<close>

definition numToString :: "int \<Rightarrow> string" where
  "numToString n = (if n < 0 then CHR ''-'' # natToDigits (nat (- n)) else natToDigits (nat n))"

definition numStr :: "int option \<Rightarrow> string" where
  "numStr v = (case v of Some n \<Rightarrow> numToString n | None \<Rightarrow> ''NaN'')"

text \<open>\<^verbatim>\<open>s.padStart(n, '0')\<close> and \<^verbatim>\<open>s.slice(-2)\<close>.\<close>

definition padStart :: "nat \<Rightarrow> string \<Rightarrow> string" where
  "padStart n s = replicate (n - length s) (CHR ''0'') @ s"

definition sliceLast2 :: "string \<Rightarrow> string" where
  "sliceLast2 s = drop (length s - 2) s"

definition numLt :: "int option \<Rightarrow> int \<Rightarrow> bool" where
  "numLt a b = (case a of Some x \<Rightarrow> x < b | None \<Rightarrow> False)"

definition numGt :: "int option \<Rightarrow> int \<Rightarrow> bool" where
  "numGt a b = (case a of Some x \<Rightarrow> x > b | None \<Rightarrow> False)"

definition numLe :: "int option \<Rightarrow> int \<Rightarrow> bool" where
  "numLe a b = (case a of Some x \<Rightarrow> x \<le> b | None \<Rightarrow> False)"

definition numGe :: "int option \<Rightarrow> int \<Rightarrow> bool" where
  "numGe a b = (case a of Some x \<Rightarrow> x \<ge> b | None \<Rightarrow> False)"

text \<open>\<^verbatim>\<open>xs.indexOf(x)\<close>, \<open>-1\<close> when absent.\<close>

fun indexOf :: "'a list \<Rightarrow> 'a \<Rightarrow> int" where
  "indexOf [] x = - 1"
| "indexOf (y # ys) x = (if y = x then 0 else (let i = indexOf ys x in if i < 0 then - 1 else i + 1))"

text \<open>The string \<^verbatim>\<open>`${year}-${monthStr}-${dayStr}`\<close> built from numbers, day and month padded to two digits.\<close>

definition isoString :: "int \<Rightarrow> int \<Rightarrow> int \<Rightarrow> string" where
  "isoString year month day =
     numToString year @ ''-'' @ padStart 2 (numToString month) @ ''-'' @ padStart 2 (numToString day)"

text \<open>
  The text \<^verbatim>\<open>YYYY-MM-DD\<close> of a calendar date, the ISO input format: the year padded
  to four digits, month and day to two.
\<close>

definition isoText :: "int \<Rightarrow> int \<Rightarrow> int \<Rightarrow> string" where
  "isoText y m d =
     padStart 4 (numToString y) @ ''-'' @ padStart 2 (numToString m) @ ''-'' @ padStart 2 (numToString d)"

text \<open>The ten characters of such a text.\<close>

abbreviation isoChars :: "char \<Rightarrow> char \<Rightarrow> char \<Rightarrow> char \<Rightarrow> char \<Rightarrow> char \<Rightarrow> char \<Rightarrow> char \<Rightarrow> string" where
  "isoChars a1 a2 a3 a4 b1 b2 c1 c2 \<equiv> [a1, a2, a3, a4, CHR ''-'', b1, b2, CHR ''-'', c1, c2]"


section \<open>The regular expressions of the code\<close>

definition isDateSep :: "char \<Rightarrow> bool" where
  "isDateSep c = (c = CHR ''/'' \<or> c = CHR ''-'')"

text \<open>
  \<^verbatim>\<open>/^\d{1,2}[\/\-]\d{1,2}([\/\-]\d{2,4})?$/\<close>: a run of one or two digits, a
  separator, a run of one or two digits and then either the end or a separator followed
  by two to four digits up to the end.
\<close>

definition EUROPEAN_DATE_REGEX :: "string \<Rightarrow> bool" where
  "EUROPEAN_DATE_REGEX s =
     (let d1 = takeWhile isDigit s; r1 = dropWhile isDigit s
      in (length d1 = 1 \<or> length d1 = 2) \<and> r1 \<noteq> [] \<and> isDateSep (hd r1) \<and>
         (let d2 = takeWhile isDigit (tl r1); r2 = dropWhile isDigit (tl r1)
          in (length d2 = 1 \<or> length d2 = 2) \<and>
             (r2 = [] \<or> (isDateSep (hd r2) \<and> list_all isDigit (tl r2) \<and>
                          2 \<le> length (tl r2) \<and> length (tl r2) \<le> 4))))"

text \<open>\<^verbatim>\<open>/^\d{4}-\d{2}-\d{2}$/\<close>.\<close>

definition ISO_DATE_REGEX :: "string \<Rightarrow> bool" where
  "ISO_DATE_REGEX s =
     (length s = 10 \<and> list_all isDigit (take 4 s) \<and> s ! 4 = CHR ''-'' \<and>
      list_all isDigit (take 2 (drop 5 s)) \<and> s ! 7 = CHR ''-'' \<and> list_all isDigit (drop 8 s))"

section \<open>JavaScript dates\<close>

text \<open>
  A \<^verbatim>\<open>Date\<close> is modelled by the calendar fields the code reads from it, named as the
  accessors are (\<open>getMonth\<close> counts from 0), and its time of day in milliseconds; an
  invalid date is \<open>None\<close>. The host's time zone is taken to be UTC, so the local fields
  of a date parsed from a date-only ISO string are the fields written in the string.
\<close>

record jsDate =
  getFullYear :: int
  getMonth :: int
  getDate :: int
  timeOfDay :: int

definition isLeapYear :: "int \<Rightarrow> bool" where
  "isLeapYear y = ((y mod 4 = 0 \<and> y mod 100 \<noteq> 0) \<or> y mod 400 = 0)"

text \<open>Days of month \<open>m\<close> (from 1) of year \<open>y\<close>.\<close>

definition daysInMonth :: "int \<Rightarrow> int \<Rightarrow> int" where
  "daysInMonth y m =
     (if m = 2 then (if isLeapYear y then 29 else 28)
      else if m = 4 \<or> m = 6 \<or> m = 9 \<or> m = 11 then 30 else 31)"

text \<open>
  What the code reads from its host: whether the engine's parser accepts a day up to 31
  in a month that is shorter and rolls it over into the next month (V8 does, SpiderMonkey
  gives an invalid date); the engine's result on every string that is not a date-only ISO
  string with fields in range; and the year of the wall clock,
  \<^verbatim>\<open>new Date().getFullYear()\<close>.
\<close>

record host =
  lenientDays :: bool
  otherParse :: "string \<Rightarrow> jsDate option"
  nowYear :: int

text \<open>
  \<^verbatim>\<open>new Date(s)\<close> for a string: the shapes \<^verbatim>\<open>YYYY-MM-DD\<close> and
  \<^verbatim>\<open>YYYY-MM-DDT00:00:00\<close> are read field by field.
\<close>

definition newDate :: "host \<Rightarrow> string \<Rightarrow> jsDate option" where
  "newDate h s =
     (let core = (if drop 10 s = ''T00:00:00'' then take 10 s else s)
      in if ISO_DATE_REGEX core then
           (let y = int (digitsToNat (take 4 core));
                m = int (digitsToNat (take 2 (drop 5 core)));
                d = int (digitsToNat (drop 8 core))
            in if 1 \<le> m \<and> m \<le> 12 \<and> 1 \<le> d \<and> d \<le> daysInMonth y m then
                 Some \<lparr>getFullYear = y, getMonth = m - 1, getDate = d, timeOfDay = 0\<rparr>
               else if 1 \<le> m \<and> m \<le> 12 \<and> 1 \<le> d \<and> d \<le> 31 then
                 (if lenientDays h then
                    Some \<lparr>getFullYear = y, getMonth = m, getDate = d - daysInMonth y m,
                          timeOfDay = 0\<rparr>
                  else None)
               else otherParse h s)
         else otherParse h s)"

text \<open>
  The day arithmetic of \<^verbatim>\<open>new Date(year, monthIndex, day)\<close> and of
  \<^verbatim>\<open>setMonth\<close>: a day before the first or after the last of the month (\<open>m\<close> from 1)
  is carried into the neighbouring months.
\<close>

function rollDays :: "int \<Rightarrow> int \<Rightarrow> int \<Rightarrow> int \<times> int \<times> int" where
  "rollDays y m d =
     (if d < 1 then
        (let y' = (if m \<le> 1 then y - 1 else y); m' = (if m \<le> 1 then 12 else m - 1)
         in rollDays y' m' (d + daysInMonth y' m'))
      else if d > daysInMonth y m then
        (let y' = (if m \<ge> 12 then y + 1 else y); m' = (if m \<ge> 12 then 1 else m + 1)
         in rollDays y' m' (d - daysInMonth y m))
      else (y, m, d))"
  by pat_completeness auto
termination
  by (relation "measure (\<lambda>(y, m, d). if d < 1 then nat (32 - d) else nat d)")
     (auto simp: daysInMonth_def Let_def)

declare rollDays.simps [simp del]

definition makeDate :: "int \<Rightarrow> int \<Rightarrow> int \<Rightarrow> int \<Rightarrow> jsDate" where
  "makeDate y monthIndex d tod =
     (case rollDays (y + monthIndex div 12) (monthIndex mod 12 + 1) d of
        (y', m', d') \<Rightarrow> \<lparr>getFullYear = y', getMonth = m' - 1, getDate = d', timeOfDay = tod\<rparr>)"

text \<open>\<^verbatim>\<open>new Date(year, monthIndex, day)\<close>: a year from 0 to 99 means 1900 + year.\<close>

definition dateFromYMD :: "int \<Rightarrow> int \<Rightarrow> int \<Rightarrow> jsDate" where
  "dateFromYMD year monthIndex day =
     makeDate (if 0 \<le> year \<and> year \<le> 99 then 1900 + year else year) monthIndex day 0"

definition setMonth :: "jsDate \<Rightarrow> int \<Rightarrow> jsDate" where
  "setMonth date monthIndex = makeDate (getFullYear date) monthIndex (getDate date) (timeOfDay date)"

text \<open>\<^verbatim>\<open>a.getTime() - b.getTime()\<close>, up to a positive factor, for two valid dates of the same time zone: the difference of the first field that differs.\<close>

definition timeDiff :: "jsDate \<Rightarrow> jsDate \<Rightarrow> int" where
  "timeDiff a b =
     (if getFullYear a \<noteq> getFullYear b then getFullYear a - getFullYear b
      else if getMonth a \<noteq> getMonth b then getMonth a - getMonth b
      else if getDate a \<noteq> getDate b then getDate a - getDate b
      else timeOfDay a - timeOfDay b)"

text \<open>\<^verbatim>\<open>roadmapYear || new Date().getFullYear()\<close>: an absent or zero year is falsy.\<close>

definition yearOrNow :: "host \<Rightarrow> int option \<Rightarrow> int" where
  "yearOrNow h roadmapYear =
     (case roadmapYear of Some y \<Rightarrow> (if y \<noteq> 0 then y else nowYear h) | None \<Rightarrow> nowYear h)"

section \<open>ConfigUtility\<close>


definition POSITION_LIMIT :: int where
  "POSITION_LIMIT = 109"

text \<open>\<^verbatim>\<open>ConfigUtility.MONTHS\<close>.\<close>

definition MONTHS_NAMES :: "string list" where
  "MONTHS_NAMES = [''JAN'', ''FEB'', ''MAR'', ''APR'', ''MAY'', ''JUN'',
                   ''JUL'', ''AUG'', ''SEP'', ''OCT'', ''NOV'', ''DEC'']"

definition MONTHS_FULL_NAMES :: "string list" where
  "MONTHS_FULL_NAMES = [''JANUARY'', ''FEBRUARY'', ''MARCH'', ''APRIL'', ''MAY'', ''JUNE'',
                        ''JULY'', ''AUGUST'', ''SEPTEMBER'', ''OCTOBER'', ''NOVEMBER'', ''DECEMBER'']"

definition GRID_POSITIONS :: "(string \<times> int) list" where
  "GRID_POSITIONS =
    [(''JAN'', 1), (''JANUARY'', 1), (''FEB'', 11), (''FEBRUARY'', 11), (''MAR'', 21), (''MARCH'', 21),
     (''APR'', 31), (''APRIL'', 31), (''MAY'', 41), (''JUN'', 51), (''JUNE'', 51), (''JUL'', 61), (''JULY'', 61),
     (''AUG'', 71), (''AUGUST'', 71), (''SEP'', 81), (''SEPTEMBER'', 81), (''OCT'', 91), (''OCTOBER'', 91),
     (''NOV'', 101), (''NOVEMBER'', 101), (''DEC'', 111), (''DECEMBER'', 111)]"

text \<open>
  \<^verbatim>\<open>getMonthGridPosition(month)\<close> is
  \<^verbatim>\<open>this.MONTHS.GRID_POSITIONS[month.toUpperCase()] || 1\<close>. Every entry of the table is
  a non-zero number, so the fallback \<^verbatim>\<open>|| 1\<close> is taken exactly for a key that is not in
  the table. The property names an object literal inherits (\<^verbatim>\<open>constructor\<close>,
  \<^verbatim>\<open>toString\<close>, ...) all contain a lower-case letter and are never the result of
  \<^verbatim>\<open>toUpperCase\<close>.
\<close>

definition getMonthGridPosition :: "string \<Rightarrow> int" where
  "getMonthGridPosition month =
     (case map_of GRID_POSITIONS (toUpperCase month) of Some p \<Rightarrow> p | None \<Rightarrow> 1)"






section \<open>Placement of the annotation text box (generateEpic)\<close>




section \<open>DateUtility\<close>

definition monthNames :: "string list" where
  "monthNames = [''JAN'', ''FEB'', ''MAR'', ''APR'', ''MAY'', ''JUN'',
                 ''JUL'', ''AUG'', ''SEP'', ''OCT'', ''NOV'', ''DEC'']"

definition fullMonthNames :: "string list" where
  "fullMonthNames = [''JANUARY'', ''FEBRUARY'', ''MARCH'', ''APRIL'', ''MAY'', ''JUNE'',
                     ''JULY'', ''AUGUST'', ''SEPTEMBER'', ''OCTOBER'', ''NOVEMBER'', ''DECEMBER'']"

text \<open>
  \<^verbatim>\<open>convertEuropeanToISO(dateStr, roadmapYear)\<close>. The year stays a string; day and
  month are numbers and may be \<^verbatim>\<open>NaN\<close>, which passes the range check and is written
  into the candidate string, for the engine to reject.
\<close>

definition convertEuropeanToISO :: "host \<Rightarrow> string \<Rightarrow> int option \<Rightarrow> string" where
  "convertEuropeanToISO h dateStr roadmapYear =
     (if dateStr = [] then dateStr
      else if CHR ''/'' \<notin> set dateStr \<and> CHR ''-'' \<notin> set dateStr then dateStr
      else
        (let parts = (if CHR ''/'' \<in> set dateStr then splitOn (\<lambda>c. c = CHR ''/'') dateStr
                      else splitOn (\<lambda>c. c = CHR ''-'') dateStr);
             day0 = parseInt (parts ! 0);
             month0 = parseInt (parts ! 1);
             year0 = (if 2 < length parts \<and> parts ! 2 \<noteq> [] then parts ! 2
                      else numToString (yearOrNow h roadmapYear));
             swap = (numGt month0 12 \<and> numLe day0 12);
             day = (if swap then month0 else day0);
             month = (if swap then day0 else month0)
         in if numLt day 1 \<or> numGt day 31 \<or> numLt month 1 \<or> numGt month 12 then dateStr
            else
              (let dayStr = padStart 2 (numStr day);
                   monthStr = padStart 2 (numStr month);
                   year = (if length year0 = 2
                           then numStr (map_option (\<lambda>t. 2000 + t) (parseInt year0))
                           else year0);
                   isoDate = year @ ''-'' @ monthStr @ ''-'' @ dayStr
               in if newDate h isoDate \<noteq> None then isoDate else dateStr)))"

text \<open>\<^verbatim>\<open>parseDateSafe(dateStr)\<close>; \<open>None\<close> is \<^verbatim>\<open>null\<close>.\<close>

definition parseDateSafe :: "host \<Rightarrow> string \<Rightarrow> jsDate option" where
  "parseDateSafe h dateStr =
     (if dateStr = [] then None
      else if EUROPEAN_DATE_REGEX dateStr then
        (let isoDate = convertEuropeanToISO h dateStr None
         in if isoDate \<noteq> [] then newDate h isoDate else None)
      else if ISO_DATE_REGEX dateStr then newDate h (dateStr @ ''T00:00:00'')
      else None)"

text \<open>
  The two patterns of \<^verbatim>\<open>parseTextValue\<close>. In both the alternatives for the month
  name are tried in the order written: the twelve short names, then the full names
  without MAY.
\<close>

definition patternMonthNames :: "string list" where
  "patternMonthNames = monthNames @ [''JANUARY'', ''FEBRUARY'', ''MARCH'', ''APRIL'', ''JUNE'',
     ''JULY'', ''AUGUST'', ''SEPTEMBER'', ''OCTOBER'', ''NOVEMBER'', ''DECEMBER'']"

text \<open>The optional group \<^verbatim>\<open>(ST|ND|RD|TH)?\<close> at the head of a string.\<close>

definition dropOrdinal :: "string \<Rightarrow> string" where
  "dropOrdinal r = (if take 2 r \<in> set [''ST'', ''ND'', ''RD'', ''TH''] then drop 2 r else r)"

text \<open>
  \<^verbatim>\<open>/^(JAN|...|DECEMBER)\s*(\d{1,2})(ST|ND|RD|TH)?\s*$/i\<close> on the upper-cased
  value: the month name and the digits of the day.
\<close>

definition monthDayTail :: "string \<Rightarrow> bool" where
  "monthDayTail r =
     (let r1 = dropWhile isSpace r; ds = takeWhile isDigit r1
      in (length ds = 1 \<or> length ds = 2) \<and> list_all isSpace (dropOrdinal (dropWhile isDigit r1)))"

definition monthDayPattern :: "string \<Rightarrow> (string \<times> string) option" where
  "monthDayPattern u =
     (case find (\<lambda>n. isPrefix n u \<and> monthDayTail (drop (length n) u)) patternMonthNames of
        None \<Rightarrow> None
      | Some n \<Rightarrow> Some (n, takeWhile isDigit (dropWhile isSpace (drop (length n) u))))"

text \<open>
  \<^verbatim>\<open>/^(\d{1,2})(ST|ND|RD|TH)?\s+(JAN|...|DECEMBER)\s*$/i\<close>: the digits of the day
  and the month name.
\<close>

definition dayMonthPattern :: "string \<Rightarrow> (string \<times> string) option" where
  "dayMonthPattern u =
     (let ds = takeWhile isDigit u;
          r1 = dropOrdinal (dropWhile isDigit u);
          r2 = dropWhile isSpace r1
      in if (length ds = 1 \<or> length ds = 2) \<and> takeWhile isSpace r1 \<noteq> [] then
           (case find (\<lambda>n. isPrefix n r2 \<and> list_all isSpace (drop (length n) r2))
                   patternMonthNames of
              None \<Rightarrow> None
            | Some n \<Rightarrow> Some (ds, n))
         else None)"

text \<open>The month index of a name: \<^verbatim>\<open>monthNames.indexOf\<close>, then \<^verbatim>\<open>fullMonthNames.indexOf\<close>.\<close>

definition monthIndexOf :: "string \<Rightarrow> int" where
  "monthIndexOf name =
     (if indexOf monthNames name = - 1 then indexOf fullMonthNames name
      else indexOf monthNames name)"

text \<open>
  \<^verbatim>\<open>parseTextValue(value, isEndDateField, roadmapYear)\<close>; the empty string is the
  result for a value that is not understood.
\<close>

definition parseTextValue :: "host \<Rightarrow> string \<Rightarrow> bool \<Rightarrow> int option \<Rightarrow> string" where
  "parseTextValue h value isEndDateField roadmapYear =
     (if value = [] then []
      else
        (let currentYear = yearOrNow h roadmapYear;
             upperValue = trim (toUpperCase value);
             (monthIndex1, dayValue1) =
                (case monthDayPattern upperValue of
                   Some (monthName, dayDigits) \<Rightarrow> (monthIndexOf monthName, parseInt dayDigits)
                 | None \<Rightarrow> (- 1, None));
             (monthIndex2, dayValue2) =
                (if monthIndex1 = - 1 then
                   (case dayMonthPattern upperValue of
                      Some (dayDigits, monthName) \<Rightarrow> (monthIndexOf monthName, parseInt dayDigits)
                    | None \<Rightarrow> (monthIndex1, dayValue1))
                 else (monthIndex1, dayValue1));
             monthIndex = (if monthIndex2 = - 1 then monthIndexOf upperValue else monthIndex2)
         in if monthIndex \<noteq> - 1 then
              (let finalDay =
                     (let defaultDay = (if isEndDateField
                                        then getDate (dateFromYMD currentYear (monthIndex + 1) 0)
                                        else 1)
                      in case dayValue2 of
                           Some dv \<Rightarrow> (if dv \<noteq> 0 \<and> dv \<ge> 1 \<and> dv \<le> 31 then dv else defaultDay)
                         | None \<Rightarrow> defaultDay)
               in isoString currentYear (monthIndex + 1) finalDay)
            else if EUROPEAN_DATE_REGEX value then
              (let parts = splitOn isDateSep value;
                   day0 = parseInt (parts ! 0);
                   month0 = parseInt (parts ! 1);
                   year0 = (if 2 < length parts \<and> parts ! 2 \<noteq> [] then parseInt (parts ! 2)
                            else Some currentYear);
                   swap = (numGt month0 12 \<and> numLe day0 12);
                   day = (if swap then month0 else day0);
                   month = (if swap then day0 else month0)
               in if numLt day 1 \<or> numGt day 31 \<or> numLt month 1 \<or> numGt month 12 then []
                  else
                    (let year = (if numLt year0 100 then map_option (\<lambda>t. 2000 + t) year0 else year0);
                         dayStr = padStart 2 (numStr day);
                         monthStr = padStart 2 (numStr month);
                         result = numStr year @ ''-'' @ monthStr @ ''-'' @ dayStr
                     in (case newDate h result of
                           None \<Rightarrow> []
                         | Some testDate \<Rightarrow>
                             if Some (getFullYear testDate) \<noteq> year
                                \<or> Some (getMonth testDate) \<noteq> map_option (\<lambda>t. t - 1) month
                                \<or> Some (getDate testDate) \<noteq> day
                             then [] else result)))
            else []))"

text \<open>\<^verbatim>\<open>getMonthName(monthNumber)\<close>, for a month number from 1.\<close>

definition getMonthName :: "int \<Rightarrow> string" where
  "getMonthName monthNumber =
     (if monthNumber < 1 \<or> monthNumber > 12 then ''JAN'' else monthNames ! nat (monthNumber - 1))"

text \<open>
  \<^verbatim>\<open>dateToGrid(dateStr, monthToGridCallback)\<close>: the month's column plus the offset of
  the 4-position mapping.
\<close>

definition dateToGrid :: "host \<Rightarrow> string \<Rightarrow> (string \<Rightarrow> int) \<Rightarrow> int" where
  "dateToGrid h dateStr monthToGridCallback =
     (case newDate h dateStr of
        None \<Rightarrow> 1
      | Some date \<Rightarrow>
          (let month = getMonth date + 1;
               dayOfMonth = getDate date;
               positionWithinMonth =
                 (if dayOfMonth \<ge> 1 \<and> dayOfMonth \<le> 3 then 0
                  else if dayOfMonth \<ge> 4 \<and> dayOfMonth \<le> 10 then 3
                  else if dayOfMonth \<ge> 11 \<and> dayOfMonth \<le> 20 then 6
                  else if dayOfMonth \<ge> 21 \<and> dayOfMonth \<le> 25 then 9
                  else 9)
           in monthToGridCallback (getMonthName month) + positionWithinMonth))"

text \<open>\<^verbatim>\<open>getGridPosition(value, monthToGridCallback)\<close>, for a value that is a string or absent.\<close>

definition getGridPosition :: "host \<Rightarrow> string option \<Rightarrow> (string \<Rightarrow> int) \<Rightarrow> int" where
  "getGridPosition h value monthToGridCallback =
     (case value of
        None \<Rightarrow> 1
      | Some v \<Rightarrow>
          if v = [] then 1
          else if ISO_DATE_REGEX v then dateToGrid h v monthToGridCallback
          else if EUROPEAN_DATE_REGEX v
          then dateToGrid h (convertEuropeanToISO h v None) monthToGridCallback
          else monthToGridCallback v)"

definition isEndOfMonth :: "host \<Rightarrow> string \<Rightarrow> bool" where
  "isEndOfMonth h dateStr =
     (case parseDateSafe h dateStr of None \<Rightarrow> False | Some date \<Rightarrow> getDate date \<ge> 26)"

definition isStartOfMonth :: "host \<Rightarrow> string \<Rightarrow> bool" where
  "isStartOfMonth h dateStr =
     (case parseDateSafe h dateStr of
        None \<Rightarrow> False | Some date \<Rightarrow> getDate date \<ge> 1 \<and> getDate date \<le> 3)"

definition isEndOfPreviousMonth :: "host \<Rightarrow> string \<Rightarrow> bool" where
  "isEndOfPreviousMonth h dateStr =
     (case parseDateSafe h dateStr of
        None \<Rightarrow> False | Some date \<Rightarrow> getDate date \<ge> 1 \<and> getDate date \<le> 3)"

definition getPreviousMonthName :: "host \<Rightarrow> string \<Rightarrow> string option" where
  "getPreviousMonthName h dateStr =
     (case parseDateSafe h dateStr of
        None \<Rightarrow> None
      | Some date \<Rightarrow> Some (getMonthName (getMonth (setMonth date (getMonth date - 1)) + 1)))"

text \<open>
  \<^verbatim>\<open>compareDates(dateA, dateB)\<close>: the sign of the result is modelled; a value that
  does not parse goes last.
\<close>

definition compareDates :: "host \<Rightarrow> string option \<Rightarrow> string option \<Rightarrow> int" where
  "compareDates h dateA dateB =
     (case parseDateSafe h (case dateA of Some a \<Rightarrow> a | None \<Rightarrow> []) of
        None \<Rightarrow> 1
      | Some parsedA \<Rightarrow>
          (case parseDateSafe h (case dateB of Some b \<Rightarrow> b | None \<Rightarrow> []) of
             None \<Rightarrow> - 1
           | Some parsedB \<Rightarrow> timeDiff parsedA parsedB))"

section \<open>RoadmapGenerator\<close>

text \<open>
  A timeline change of a story (\<^verbatim>\<open>story.roadmapChanges.changes[i]\<close>), with its
  \<^verbatim>\<open>date\<close> and \<^verbatim>\<open>newEndDate\<close>; a field of a record is a string or absent.
\<close>

record change =
  changeDate :: "string option"
  newEndDate :: "string option"

text \<open>
  The fields of a story record that positioning reads, and the three fields
  (\<^verbatim>\<open>_originalStartDate\<close>, \<^verbatim>\<open>_startsInPreviousYear\<close>,
  \<^verbatim>\<open>_actualStartYear\<close>) that \<^verbatim>\<open>generateStory\<close> writes into it.
\<close>

record story =
  startDate :: "string option"
  startMonth :: "string option"
  endDate :: "string option"
  endMonth :: "string option"
  changes :: "change list"
  originalStartDate :: "string option"
  startsInPreviousYear :: bool
  actualStartYear :: "int option"

record dateRange =
  rangeStartDate :: "string option"
  rangeEndDate :: "string option"

text \<open>The state of a \<^verbatim>\<open>RoadmapGenerator\<close> object that positioning reads.\<close>

record generator =
  roadmapYear :: int
  searchRange :: "dateRange option"

datatype error = TypeError

definition strVal :: "string option \<Rightarrow> string" where
  "strVal v = (case v of Some s \<Rightarrow> s | None \<Rightarrow> [])"

fun nthOpt :: "'a list \<Rightarrow> nat \<Rightarrow> 'a option" where
  "nthOpt [] n = None"
| "nthOpt (x # xs) 0 = Some x"
| "nthOpt (x # xs) (Suc n) = nthOpt xs n"

text \<open>\<^verbatim>\<open>parseInt\<close> of an array element that may be \<^verbatim>\<open>undefined\<close>.\<close>

definition parseIntOpt :: "string option \<Rightarrow> int option" where
  "parseIntOpt v = (case v of Some s \<Rightarrow> parseInt s | None \<Rightarrow> None)"

text \<open>\<^verbatim>\<open>monthToGrid(month)\<close>: \<^verbatim>\<open>month.toUpperCase()\<close> throws on a value that is absent.\<close>

definition monthToGrid :: "string option \<Rightarrow> error + int" where
  "monthToGrid month = (case month of Some m \<Rightarrow> Inr (getMonthGridPosition m) | None \<Rightarrow> Inl TypeError)"

text \<open>\<^verbatim>\<open>/\d+\/\d+/.test(str)\<close>: somewhere a digit, a slash and a digit.\<close>

fun digitsSlashDigits :: "string \<Rightarrow> bool" where
  "digitsSlashDigits (a # b # c # cs) =
     ((isDigit a \<and> b = CHR ''/'' \<and> isDigit c) \<or> digitsSlashDigits (b # c # cs))"
| "digitsSlashDigits cs = False"

text \<open>\<^verbatim>\<open>str.match(/\d+/)\<close>: the first run of digits.\<close>

definition firstDigits :: "string \<Rightarrow> string option" where
  "firstDigits str =
     (let ds = takeWhile isDigit (dropWhile (\<lambda>c. \<not> isDigit c) str)
      in if ds = [] then None else Some ds)"

definition isWordChar :: "char \<Rightarrow> bool" where
  "isWordChar c = (isDigit c \<or> c \<in> set lowerLetters \<or> c \<in> set upperLetters \<or> c = CHR ''_'')"

text \<open>
  \<^verbatim>\<open>str.match(/\b\d{2,4}\b/)\<close>: the first run of two to four digits that has no word
  character on either side. The flag tells whether the character before is a word
  character.
\<close>

fun boundedDigits :: "bool \<Rightarrow> string \<Rightarrow> string option" where
  "boundedDigits prevWord [] = None"
| "boundedDigits prevWord (c # cs) =
     (let run = takeWhile isDigit (c # cs); rest = dropWhile isDigit (c # cs)
      in if \<not> prevWord \<and> isDigit c \<and> 2 \<le> length run \<and> length run \<le> 4
            \<and> (rest = [] \<or> \<not> isWordChar (hd rest))
         then Some run
         else boundedDigits (isWordChar c) cs)"

text \<open>The month table of \<^verbatim>\<open>convertStoryDateToISO\<close>, in the order of its entries.\<close>

definition storyMonthMap :: "(string \<times> string) list" where
  "storyMonthMap =
     [(''jan'', ''01''), (''january'', ''01''), (''feb'', ''02''), (''february'', ''02''),
      (''mar'', ''03''), (''march'', ''03''), (''apr'', ''04''), (''april'', ''04''),
      (''may'', ''05''), (''jun'', ''06''), (''june'', ''06''), (''jul'', ''07''), (''july'', ''07''),
      (''aug'', ''08''), (''august'', ''08''), (''sep'', ''09''), (''sept'', ''09''),
      (''september'', ''09''), (''oct'', ''10''), (''october'', ''10''), (''nov'', ''11''),
      (''november'', ''11''), (''dec'', ''12''), (''december'', ''12'')]"

text \<open>The loop of \<^verbatim>\<open>convertStoryDateToISO\<close> over the entries of the month table.\<close>

fun monthNameLoop :: "string \<Rightarrow> int \<Rightarrow> (string \<times> string) list \<Rightarrow> string option" where
  "monthNameLoop str currentYear [] = None"
| "monthNameLoop str currentYear ((monthName, monthNum) # entries) =
     (if includesStr str monthName then
        (let day = (case firstDigits str of Some ds \<Rightarrow> parseInt ds | None \<Rightarrow> Some 1);
             year = (case boundedDigits False str of
                       Some ys \<Rightarrow> (let y = parseInt ys
                                   in if numLt y 100 then map_option (\<lambda>t. 2000 + t) y else y)
                     | None \<Rightarrow> Some currentYear)
         in if numGe day 1 \<and> numLe day 31
            then Some (numStr year @ ''-'' @ monthNum @ ''-'' @ padStart 2 (numStr day))
            else monthNameLoop str currentYear entries)
      else monthNameLoop str currentYear entries)"

text \<open>\<^verbatim>\<open>convertStoryDateToISO(dateStr, defaultYear)\<close>; \<open>None\<close> is \<^verbatim>\<open>null\<close>.\<close>

definition convertStoryDateToISO :: "host \<Rightarrow> string option \<Rightarrow> int \<Rightarrow> string option" where
  "convertStoryDateToISO h dateStr defaultYear =
     (if \<not> truthy dateStr then None
      else
        (let str = trim (toLowerCase (strVal dateStr));
             currentYear = yearOrNow h (Some defaultYear);
             parts = splitOn (\<lambda>c. c = CHR ''/'') str;
             day = parseIntOpt (nthOpt parts 0);
             month = parseIntOpt (nthOpt parts 1);
             year0 = (if length parts > 2 then parseIntOpt (nthOpt parts 2) else Some currentYear);
             year = (if numLt year0 100 then map_option (\<lambda>t. 2000 + t) year0 else year0)
         in if ISO_DATE_REGEX str then Some str
            else if CHR ''/'' \<in> set str \<and> digitsSlashDigits str \<and> length parts \<ge> 2
                    \<and> numGe day 1 \<and> numLe day 31 \<and> numGe month 1 \<and> numLe month 12
            then Some (numStr year @ ''-'' @ padStart 2 (numStr month) @ ''-'' @ padStart 2 (numStr day))
            else monthNameLoop str currentYear storyMonthMap))"

text \<open>\<^verbatim>\<open>storyContinuesNextYear(story)\<close>.\<close>

definition storyContinuesNextYear :: "generator \<Rightarrow> host \<Rightarrow> story \<Rightarrow> bool" where
  "storyContinuesNextYear g h s =
     (if \<not> truthy (endDate s) then False
      else
        (case convertStoryDateToISO h (endDate s) (roadmapYear g) of
           None \<Rightarrow> False
         | Some storyEndDateStr \<Rightarrow>
             if storyEndDateStr = [] then False
             else
               (let storyEndYear = parseIntOpt (nthOpt (splitOn (\<lambda>c. c = CHR ''-'') storyEndDateStr) 0)
                in if roadmapYear g \<noteq> 0 \<and> numGt storyEndYear (roadmapYear g) then True
                   else
                     (case searchRange g of
                        None \<Rightarrow> False
                      | Some r \<Rightarrow>
                          if truthy (rangeEndDate r)
                          then strGreater storyEndDateStr (strVal (rangeEndDate r))
                          else False))))"

text \<open>\<^verbatim>\<open>/^\d{1,2}[\/\-]\d{1,2}[\/\-]\d{2,4}$/\<close>, the European pattern with the year required.\<close>

definition EUROPEAN_WITH_YEAR :: "string \<Rightarrow> bool" where
  "EUROPEAN_WITH_YEAR s = (EUROPEAN_DATE_REGEX s \<and> length (splitOn isDateSep s) = 3)"

definition parseMonthMap :: "(string \<times> int) list" where
  "parseMonthMap =
     [(''jan'', 0), (''january'', 0), (''feb'', 1), (''february'', 1), (''mar'', 2), (''march'', 2),
      (''apr'', 3), (''april'', 3), (''may'', 4), (''jun'', 5), (''june'', 5),
      (''jul'', 6), (''july'', 6), (''aug'', 7), (''august'', 7), (''sep'', 8), (''sept'', 8),
      (''september'', 8), (''oct'', 9), (''october'', 9), (''nov'', 10), (''november'', 10),
      (''dec'', 11), (''december'', 11)]"

text \<open>
  \<^verbatim>\<open>parseMonthToDate(monthStr, year)\<close>. A key that the table inherits rather than
  holds gives an invalid date in the code, which its caller treats as it treats
  \<^verbatim>\<open>null\<close>; both are \<open>None\<close> here.
\<close>

definition parseMonthToDate :: "string \<Rightarrow> int \<Rightarrow> jsDate option" where
  "parseMonthToDate monthStr year =
     (case map_of parseMonthMap (toLowerCase monthStr) of
        Some month \<Rightarrow> Some (dateFromYMD year month 1)
      | None \<Rightarrow> None)"

text \<open>\<^verbatim>\<open>storyStartsBeforeRange(story)\<close>.\<close>

definition storyStartsBeforeRange :: "generator \<Rightarrow> host \<Rightarrow> story \<Rightarrow> bool" where
  "storyStartsBeforeRange g h s =
     (case searchRange g of
        None \<Rightarrow> False
      | Some r \<Rightarrow>
          if \<not> truthy (rangeStartDate r) then False
          else if \<not> truthy (startDate s) \<and> \<not> truthy (startMonth s) then False
          else
            (let storyStartDate =
                   (if truthy (startDate s) then
                      (let sd = strVal (startDate s);
                           isoStartDate = (if EUROPEAN_WITH_YEAR sd
                                           then convertEuropeanToISO h sd (Some (roadmapYear g)) else sd)
                       in newDate h isoStartDate)
                    else
                      (let storyStartStr = strVal (startMonth s);
                           yearToUse = yearOrNow h (Some (roadmapYear g))
                       in if EUROPEAN_WITH_YEAR storyStartStr
                          then newDate h (convertEuropeanToISO h storyStartStr (Some (roadmapYear g)))
                          else parseMonthToDate storyStartStr yearToUse));
                 searchStartParts = splitOn (\<lambda>c. c = CHR ''-'') (strVal (rangeStartDate r));
                 p0 = parseIntOpt (nthOpt searchStartParts 0);
                 p1 = parseIntOpt (nthOpt searchStartParts 1);
                 p2 = parseIntOpt (nthOpt searchStartParts 2)
             in (case (storyStartDate, p0, p1, p2) of
                   (Some sd, Some y, Some m, Some d) \<Rightarrow> timeDiff sd (dateFromYMD y (m - 1) d) \<le> 0
                 | _ \<Rightarrow> False)))"

text \<open>
  A stable sort with a comparison function, as \<^verbatim>\<open>Array.prototype.sort\<close> is for a
  consistent comparison.
\<close>

fun insertBy :: "('a \<Rightarrow> 'a \<Rightarrow> int) \<Rightarrow> 'a \<Rightarrow> 'a list \<Rightarrow> 'a list" where
  "insertBy cmp x [] = [x]"
| "insertBy cmp x (y # ys) = (if cmp x y < 0 then x # y # ys else y # insertBy cmp x ys)"

definition sortBy :: "('a \<Rightarrow> 'a \<Rightarrow> int) \<Rightarrow> 'a list \<Rightarrow> 'a list" where
  "sortBy cmp xs = foldl (\<lambda>acc x. insertBy cmp x acc) [] xs"

text \<open>\<^verbatim>\<open>getEffectiveEndDate(story)\<close>.\<close>

definition getEffectiveEndDate :: "host \<Rightarrow> story \<Rightarrow> string option" where
  "getEffectiveEndDate h s =
     (if changes s = [] then orElse (endDate s) (endMonth s)
      else
        (case sortBy (\<lambda>a b. compareDates h (changeDate b) (changeDate a)) (changes s) of
           [] \<Rightarrow> orElse (endDate s) (endMonth s)
         | mostRecentChange # rest \<Rightarrow>
             if truthy (newEndDate mostRecentChange) then
               (let ne = strVal (newEndDate mostRecentChange)
                in if CHR ''-'' \<in> set ne \<or> EUROPEAN_DATE_REGEX ne then Some ne
                   else Some (toUpperCase ne))
             else orElse (endDate s) (endMonth s)))"

text \<open>\<^verbatim>\<open>isEffectiveEndDateADate(story)\<close>.\<close>

definition isEffectiveEndDateADate :: "host \<Rightarrow> story \<Rightarrow> bool" where
  "isEffectiveEndDateADate h s =
     (let effectiveEndDate = getEffectiveEndDate h s
      in truthy effectiveEndDate \<and>
         (CHR ''-'' \<in> set (strVal effectiveEndDate) \<or> EUROPEAN_DATE_REGEX (strVal effectiveEndDate)))"

text \<open>The year of a start or end value, as \<^verbatim>\<open>shouldDisplayStory\<close> finds it.\<close>

definition displayYear :: "generator \<Rightarrow> host \<Rightarrow> string option \<Rightarrow> string option \<Rightarrow> int option" where
  "displayYear g h dateField monthField =
     (if truthy dateField then
        (let d = strVal dateField;
             isoDate = (if EUROPEAN_DATE_REGEX d
                        then convertEuropeanToISO h d (Some (roadmapYear g)) else d)
         in map_option getFullYear (newDate h isoDate))
      else if truthy monthField then Some (roadmapYear g)
      else None)"

text \<open>\<^verbatim>\<open>shouldDisplayStory(story)\<close>.\<close>

definition shouldDisplayStory :: "generator \<Rightarrow> host \<Rightarrow> story \<Rightarrow> bool" where
  "shouldDisplayStory g h s =
     (if roadmapYear g = 0 then True
      else
        (case (displayYear g h (startDate s) (startMonth s),
               displayYear g h (endDate s) (endMonth s)) of
           (Some startYear, Some endYear) \<Rightarrow> startYear \<le> roadmapYear g \<and> endYear \<ge> roadmapYear g
         | (Some startYear, None) \<Rightarrow> startYear \<le> roadmapYear g
         | (None, Some endYear) \<Rightarrow> endYear \<ge> roadmapYear g
         | (None, None) \<Rightarrow> True))"

text \<open>
  The first part of \<^verbatim>\<open>generateStory\<close>: the start column \<^verbatim>\<open>startGrid\<close>, and
  the story record as the code leaves it (a start before the roadmap year is overwritten
  with 1 January of the roadmap year). The callback passed to \<^verbatim>\<open>DateUtility\<close> is
  always \<^verbatim>\<open>this.monthToGrid\<close>. An exception inside the \<^verbatim>\<open>try\<close> block leads
  to the fallback of the \<^verbatim>\<open>catch\<close> block; the call outside it can throw.
\<close>

definition resolveStartGrid :: "generator \<Rightarrow> host \<Rightarrow> story \<Rightarrow> error + (int \<times> story)" where
  "resolveStartGrid g h s =
     (let startValue = orElse (startDate s) (startMonth s)
      in if truthy (startDate s) then
           (let sd = strVal (startDate s);
                isoStartDate = (if EUROPEAN_DATE_REGEX sd
                                then convertEuropeanToISO h sd (Some (roadmapYear g)) else sd)
            in case newDate h isoStartDate of
                 None \<Rightarrow> Inr (getGridPosition h startValue getMonthGridPosition, s)
               | Some startDateObj \<Rightarrow>
                   if getFullYear startDateObj < roadmapYear g then
                     (let s' = s\<lparr>originalStartDate := startDate s,
                                 startDate := Some (''01/01/'' @ numToString (roadmapYear g)),
                                 startsInPreviousYear := True,
                                 actualStartYear := Some (getFullYear startDateObj)\<rparr>;
                          jan1IsoDate = numToString (roadmapYear g) @ ''-01-01''
                      in Inr (if isStartOfMonth h jan1IsoDate then getMonthGridPosition ''JAN''
                              else dateToGrid h jan1IsoDate getMonthGridPosition, s'))
                   else if isStartOfMonth h isoStartDate then
                     Inr (getMonthGridPosition (getMonthName (getMonth startDateObj + 1)), s)
                   else if isEndOfPreviousMonth h isoStartDate then
                     (case monthToGrid (getPreviousMonthName h isoStartDate) of
                        Inr c \<Rightarrow> Inr (c, s)
                      | Inl e \<Rightarrow> Inr (getGridPosition h startValue getMonthGridPosition, s))
                   else
                     (let dayOfMonth = getDate startDateObj
                      in if dayOfMonth \<ge> 28 then
                           (let currentMonth = getMonth startDateObj + 1;
                                nextMonth = (if currentMonth = 12 then 1 else currentMonth + 1)
                            in Inr (getMonthGridPosition (getMonthName nextMonth), s))
                         else
                           (let base = dateToGrid h isoStartDate getMonthGridPosition
                            in Inr (if dayOfMonth \<ge> 4 \<and> dayOfMonth \<le> 27 then base - 2 else base, s))))
         else (case monthToGrid startValue of Inl e \<Rightarrow> Inl e | Inr c \<Rightarrow> Inr (c, s)))"

text \<open>
  The second part of \<^verbatim>\<open>generateStory\<close>: the end column \<^verbatim>\<open>endGrid\<close> before the
  continuation override, for the start column found before.
\<close>

definition resolveEndGrid :: "generator \<Rightarrow> host \<Rightarrow> story \<Rightarrow> int \<Rightarrow> error + int" where
  "resolveEndGrid g h s startGridV =
     (let effectiveEndValue = getEffectiveEndDate h s;
          effectiveEndIsDate = isEffectiveEndDateADate h s
      in if truthy effectiveEndValue then
           (let ev = strVal effectiveEndValue
            in if \<not> effectiveEndIsDate then
                 Inr (getGridPosition h effectiveEndValue getMonthGridPosition + 10)
               else if isEndOfMonth h ev then
                 (case parseDateSafe h ev of
                    None \<Rightarrow> Inl TypeError
                  | Some parsedEndDate \<Rightarrow>
                      Inr (getGridPosition h (Some (getMonthName (getMonth parsedEndDate + 1)))
                             getMonthGridPosition + 10))
               else if isEndOfPreviousMonth h ev then
                 Inr (getGridPosition h (getPreviousMonthName h ev) getMonthGridPosition + 10)
               else
                 (let isoEndDate = (if EUROPEAN_DATE_REGEX ev
                                    then convertEuropeanToISO h ev (Some (roadmapYear g)) else ev)
                  in case newDate h isoEndDate of
                       Some endDateObj \<Rightarrow> Inr (getGridPosition h (Some isoEndDate) getMonthGridPosition)
                     | None \<Rightarrow> Inr (getGridPosition h effectiveEndValue getMonthGridPosition)))
         else Inr (startGridV + 10))"

definition continuationMonthNames :: "string list" where
  "continuationMonthNames = [''Jan'', ''Feb'', ''Mar'', ''Apr'', ''May'', ''Jun'',
                             ''Jul'', ''Aug'', ''Sep'', ''Oct'', ''Nov'', ''Dec'']"

text \<open>
  The continuation indicator of \<^verbatim>\<open>generateStory\<close>: the month and the two-digit year
  it displays, read from the story's own end date.
\<close>

definition continuationIndicator ::
  "generator \<Rightarrow> host \<Rightarrow> story \<Rightarrow> bool \<Rightarrow> (string \<times> string) option" where
  "continuationIndicator g h s continues =
     (if continues \<and> truthy (endDate s) then
        (case convertStoryDateToISO h (endDate s) (roadmapYear g) of
           None \<Rightarrow> Some (''Dec'', sliceLast2 (numToString (roadmapYear g + 1)))
         | Some storyEndDateStr \<Rightarrow>
             if storyEndDateStr = [] then Some (''Dec'', sliceLast2 (numToString (roadmapYear g + 1)))
             else
               (let parts = splitOn (\<lambda>c. c = CHR ''-'') storyEndDateStr;
                    actualEndYear = parseIntOpt (nthOpt parts 0);
                    monthIndex = map_option (\<lambda>t. t - 1) (parseIntOpt (nthOpt parts 1));
                    actualEndMonth =
                      (case monthIndex of
                         Some i \<Rightarrow> (if 0 \<le> i \<and> i < 12 then continuationMonthNames ! nat i
                                    else ''undefined'')
                       | None \<Rightarrow> ''undefined'')
                in Some (actualEndMonth, sliceLast2 (numStr actualEndYear))))
      else None)"

text \<open>
  What \<^verbatim>\<open>generateStory\<close> writes into the style and the continuation indicator of the
  story bar.
\<close>

record storyBox =
  startGrid :: int
  endGrid :: int
  continuesNextYear :: bool
  startsBeforeRange :: bool
  continuation :: "(string \<times> string) option"

text \<open>
  \<^verbatim>\<open>generateStory(story, ...)\<close>: the positioning it computes, \<open>None\<close> for a story
  that is not displayed (the empty string in the code), together with the story record
  after the call.
\<close>

definition generateStory :: "generator \<Rightarrow> host \<Rightarrow> story \<Rightarrow> error + (storyBox option \<times> story)" where
  "generateStory g h s =
     (if \<not> shouldDisplayStory g h s then Inr (None, s)
      else
        (case resolveStartGrid g h s of
           Inl e \<Rightarrow> Inl e
         | Inr (startGrid0, s') \<Rightarrow>
             (case resolveEndGrid g h s startGrid0 of
                Inl e \<Rightarrow> Inl e
              | Inr endGrid0 \<Rightarrow>
                  (let continues = storyContinuesNextYear g h s';
                       before = storyStartsBeforeRange g h s'
                   in Inr (Some \<lparr>startGrid = (if before
                                              then getGridPosition h (Some ''JAN'') getMonthGridPosition
                                              else startGrid0),
                                 endGrid = (if continues
                                            then getGridPosition h (Some ''DEC'') getMonthGridPosition + 10
                                            else endGrid0),
                                 continuesNextYear = continues,
                                 startsBeforeRange = before,
                                 continuation = continuationIndicator g h s' continues\<rparr>,
                           s')))))"

section \<open>Example inputs\<close>

text \<open>
  Two hosts whose engines reject every text that is not an ISO date, one rolling an
  overlong day over and one not, with the wall clock in 2026; the generator of the 2025
  roadmap without a search range; and a story given by its start and end dates only.
\<close>

definition lenientHost :: host where
  "lenientHost = \<lparr>lenientDays = True, otherParse = Map.empty, nowYear = 2026\<rparr>"

definition strictHost :: host where
  "strictHost = \<lparr>lenientDays = False, otherParse = Map.empty, nowYear = 2026\<rparr>"

definition roadmap2025 :: generator where
  "roadmap2025 = \<lparr>roadmapYear = 2025, searchRange = None\<rparr>"

definition storyFromTo :: "string option \<Rightarrow> string option \<Rightarrow> story" where
  "storyFromTo start end =
     \<lparr>startDate = start, startMonth = None, endDate = end, endMonth = None, changes = [],
      originalStartDate = None, startsInPreviousYear = False, actualStartYear = None\<rparr>"

section \<open>Results about ConfigUtility\<close>

lemma lt12_cases: "(i::nat) < 12 \<Longrightarrow> i \<in> {0,1,2,3,4,5,6,7,8,9,10,11}"
  by (simp, arith)

lemma GRID_POSITIONS_keys:
  "fst ` set GRID_POSITIONS = set MONTHS_NAMES \<union> set MONTHS_FULL_NAMES"
  by (simp add: GRID_POSITIONS_def MONTHS_NAMES_def MONTHS_FULL_NAMES_def insert_commute)

lemma GRID_POSITIONS_short:
  "i < 12 \<Longrightarrow> map_of GRID_POSITIONS (MONTHS_NAMES ! i) = Some (1 + 10 * int i)"
  by (drule lt12_cases) (safe; simp add: GRID_POSITIONS_def MONTHS_NAMES_def)

lemma GRID_POSITIONS_full:
  "i < 12 \<Longrightarrow> map_of GRID_POSITIONS (MONTHS_FULL_NAMES ! i) = Some (1 + 10 * int i)"
  by (drule lt12_cases) (safe; simp add: GRID_POSITIONS_def MONTHS_FULL_NAMES_def)

lemma GRID_POSITIONS_none:
  "k \<notin> set MONTHS_NAMES \<union> set MONTHS_FULL_NAMES \<Longrightarrow> map_of GRID_POSITIONS k = None"
  by (simp add: map_of_eq_None_iff GRID_POSITIONS_keys)

text \<open>
  C10. The lookup from month name to base column is a total function on strings. It reads
  its argument through \<open>toUpperCase\<close>, so any casing of a three-letter or full month name
  gives that month's base column \<open>1 + 10 * i\<close> (\<open>i\<close> the month's index from 0), and every
  string whose upper-case form is not a key of the table gives column 1, January's base
  column, without any error.
\<close>

theorem getMonthGridPosition_total:
  "(\<forall>i<12. \<forall>s. toUpperCase s = MONTHS_NAMES ! i \<or> toUpperCase s = MONTHS_FULL_NAMES ! i
       \<longrightarrow> getMonthGridPosition s = 1 + 10 * int i)
   \<and> (\<forall>s. toUpperCase s \<notin> set MONTHS_NAMES \<union> set MONTHS_FULL_NAMES
       \<longrightarrow> getMonthGridPosition s = 1)"
  by (auto simp: getMonthGridPosition_def GRID_POSITIONS_short GRID_POSITIONS_full
      GRID_POSITIONS_none)

theorem getMonthGridPosition_total_witness:
  "toUpperCase ''sep'' = MONTHS_NAMES ! 8 \<and> getMonthGridPosition ''sep'' = 81
   \<and> toUpperCase ''September'' = MONTHS_FULL_NAMES ! 8 \<and> getMonthGridPosition ''September'' = 81
   \<and> toUpperCase ''Sept'' \<notin> set MONTHS_NAMES \<union> set MONTHS_FULL_NAMES
   \<and> getMonthGridPosition ''Sept'' = 1"
proof -
  have a: "toUpperCase ''sep'' = MONTHS_NAMES ! 8"
    by (simp add: toUpperCase_def toUpperChar_def lowerLetters_def upperLetters_def MONTHS_NAMES_def)
  have b: "toUpperCase ''September'' = MONTHS_FULL_NAMES ! 8"
    by (simp add: toUpperCase_def toUpperChar_def lowerLetters_def upperLetters_def
        MONTHS_FULL_NAMES_def)
  have c: "toUpperCase ''Sept'' \<notin> set MONTHS_NAMES \<union> set MONTHS_FULL_NAMES"
    by (simp add: toUpperCase_def toUpperChar_def lowerLetters_def upperLetters_def
        MONTHS_NAMES_def MONTHS_FULL_NAMES_def)
  have l: "(8::nat) < 12" by simp
  from getMonthGridPosition_total have
    t1: "\<And>i s. i < 12 \<Longrightarrow> toUpperCase s = MONTHS_NAMES ! i
           \<Longrightarrow> getMonthGridPosition s = 1 + 10 * int i"
    and t2: "\<And>i s. i < 12 \<Longrightarrow> toUpperCase s = MONTHS_FULL_NAMES ! i
           \<Longrightarrow> getMonthGridPosition s = 1 + 10 * int i"
    and t3: "\<And>s. toUpperCase s \<notin> set MONTHS_NAMES \<union> set MONTHS_FULL_NAMES
           \<Longrightarrow> getMonthGridPosition s = 1"
    by blast+
  from t1[OF l a] t2[OF l b] t3[OF c] a b c show ?thesis by simp
qed



section \<open>Digits and decimal texts\<close>

lemma lt10_cases: "(k::nat) < 10 \<Longrightarrow> k \<in> {0,1,2,3,4,5,6,7,8,9}"
  by (simp, arith)

lemma digitChar_isDigit: "k < 10 \<Longrightarrow> isDigit (digitChar k)"
  by (drule lt10_cases) (safe; simp add: isDigit_def digitChar_def digitChars_def)

lemma digitVal_digitChar: "k < 10 \<Longrightarrow> digitVal (digitChar k) = k"
  by (drule lt10_cases) (safe; simp add: digitVal_def digitChar_def digitChars_def)

lemma digitChar_0: "digitChar 0 = CHR ''0''"
  by (simp add: digitChar_def digitChars_def)

lemma isDigit_cases: "isDigit c \<Longrightarrow> c \<in> set ''0123456789''"
  by (simp add: isDigit_def digitChars_def)

lemma isDigit_facts:
  assumes "isDigit c"
  shows "\<not> isSpace c" "\<not> isDateSep c" "c \<noteq> CHR ''-''" "c \<noteq> CHR ''+''" "c \<noteq> CHR ''/''"
    "c \<noteq> CHR ''x''" "c \<noteq> CHR ''X''" "c \<noteq> CHR ''T''" "toUpperChar c = c" "toLowerChar c = c"
    "isWordChar c" "isHexDigit c"
  using isDigit_cases[OF assms, simplified]
  by (safe; simp add: isSpace_def isDateSep_def toUpperChar_def toLowerChar_def lowerLetters_def
        upperLetters_def isWordChar_def isDigit_def digitChars_def isHexDigit_def)+

lemma natToDigits_1: "n < 10 \<Longrightarrow> natToDigits n = [digitChar n]"
  by (simp add: natToDigits.simps)

lemma natToDigits_2: "10 \<le> n \<Longrightarrow> n < 100 \<Longrightarrow> natToDigits n = [digitChar (n div 10), digitChar (n mod 10)]"
  by (subst natToDigits.simps) (simp add: natToDigits_1)

lemma natToDigits_3: "100 \<le> n \<Longrightarrow> n < 1000 \<Longrightarrow>
   natToDigits n = [digitChar (n div 100), digitChar (n div 10 mod 10), digitChar (n mod 10)]"
  by (subst natToDigits.simps) (simp add: natToDigits_2 div_mult2_eq[symmetric])

lemma natToDigits_4: "1000 \<le> n \<Longrightarrow> n < 10000 \<Longrightarrow>
   natToDigits n = [digitChar (n div 1000), digitChar (n div 100 mod 10), digitChar (n div 10 mod 10),
                    digitChar (n mod 10)]"
  by (subst natToDigits.simps) (simp add: natToDigits_3 div_mult2_eq[symmetric])

lemma replicate_small:
  "replicate (Suc 0) c = [c]" "replicate 2 c = [c, c]" "replicate 3 c = [c, c, c]"
  by (simp_all add: numeral_2_eq_2 numeral_3_eq_3)

lemma decimal_split:
  fixes n :: nat
  shows "n = 1000 * (n div 1000) + 100 * (n div 100 mod 10) + 10 * (n div 10 mod 10) + n mod 10"
proof -
  have a: "n = 10 * (n div 10) + n mod 10" by simp
  have b: "n div 10 = 10 * (n div 10 div 10) + n div 10 mod 10" by simp
  have c: "n div 100 = 10 * (n div 100 div 10) + n div 100 mod 10" by simp
  have d: "n div 10 div 10 = n div 100" "n div 100 div 10 = n div 1000"
    by (simp_all add: div_mult2_eq[symmetric])
  from a b c d show ?thesis by linarith
qed

lemma pad2:
  assumes "n < 100"
  shows "padStart 2 (natToDigits n) = [digitChar (n div 10), digitChar (n mod 10)]"
proof (cases "n < 10")
  case True
  then have "natToDigits n = [digitChar n]" "n div 10 = 0" "n mod 10 = n"
    by (simp_all add: natToDigits_1)
  then show ?thesis by (simp add: padStart_def digitChar_0 replicate_small)
next
  case False
  with assms have "natToDigits n = [digitChar (n div 10), digitChar (n mod 10)]"
    by (simp add: natToDigits_2)
  then show ?thesis by (simp add: padStart_def)
qed

lemma pad4: "n < 10000 \<Longrightarrow> padStart 4 (natToDigits n) =
   [digitChar (n div 1000), digitChar (n div 100 mod 10), digitChar (n div 10 mod 10), digitChar (n mod 10)]"
proof -
  assume n: "n < 10000"
  consider "n < 10" | "10 \<le> n" "n < 100" | "100 \<le> n" "n < 1000" | "1000 \<le> n" by linarith
  then show ?thesis
  proof cases
    case 1 then show ?thesis by (simp add: padStart_def natToDigits_1 digitChar_0 replicate_small)
  next
    case 2 then show ?thesis by (simp add: padStart_def natToDigits_2 digitChar_0 replicate_small)
  next
    case 3 then show ?thesis by (simp add: padStart_def natToDigits_3 digitChar_0 replicate_small)
  next
    case 4 with n show ?thesis by (simp add: padStart_def natToDigits_4)
  qed
qed

lemma digitsToNat_2: "a < 10 \<Longrightarrow> b < 10 \<Longrightarrow> digitsToNat [digitChar a, digitChar b] = 10 * a + b"
  by (simp add: digitsToNat_def digitVal_digitChar)

lemma digitsToNat_4: "a < 10 \<Longrightarrow> b < 10 \<Longrightarrow> c < 10 \<Longrightarrow> d < 10 \<Longrightarrow>
   digitsToNat [digitChar a, digitChar b, digitChar c, digitChar d] = 1000 * a + 100 * b + 10 * c + d"
  by (simp add: digitsToNat_def digitVal_digitChar)

lemma digits2_val: "n < 100 \<Longrightarrow> digitsToNat [digitChar (n div 10), digitChar (n mod 10)] = n"
  by (simp add: digitsToNat_2)

lemma digits4_val: "n < 10000 \<Longrightarrow> digitsToNat [digitChar (n div 1000), digitChar (n div 100 mod 10),
    digitChar (n div 10 mod 10), digitChar (n mod 10)] = n"
proof -
  assume n: "n < 10000"
  have "digitsToNat [digitChar (n div 1000), digitChar (n div 100 mod 10),
    digitChar (n div 10 mod 10), digitChar (n mod 10)] = 1000 * (n div 1000) + 100 * (n div 100 mod 10) + 10 * (n div 10 mod 10) + n mod 10"
    using n by (intro digitsToNat_4) simp_all
  also have "\<dots> = n" by (rule decimal_split[symmetric])
  finally show ?thesis .
qed

section \<open>The text of a date\<close>

lemma not_isDigit_dash: "\<not> isDigit (CHR ''-'')"
  by (simp add: isDigit_def digitChars_def)

lemma isoChars_ISO:
  assumes "isDigit a1" "isDigit a2" "isDigit a3" "isDigit a4" "isDigit b1" "isDigit b2"
    "isDigit c1" "isDigit c2"
  shows "ISO_DATE_REGEX (isoChars a1 a2 a3 a4 b1 b2 c1 c2)"
  using assms by (simp add: ISO_DATE_REGEX_def)

lemma isoChars_not_EUROPEAN:
  assumes "isDigit a1" "isDigit a2" "isDigit a3" "isDigit a4"
  shows "\<not> EUROPEAN_DATE_REGEX (isoChars a1 a2 a3 a4 b1 b2 c1 c2)"
  using assms by (simp add: EUROPEAN_DATE_REGEX_def not_isDigit_dash Let_def)

lemma isoChars_nonempty: "isoChars a1 a2 a3 a4 b1 b2 c1 c2 \<noteq> []"
  by simp

lemma isoChars_core:
  "(if drop 10 (isoChars a1 a2 a3 a4 b1 b2 c1 c2) = ''T00:00:00'' then take 10 (isoChars a1 a2 a3 a4 b1 b2 c1 c2)
    else isoChars a1 a2 a3 a4 b1 b2 c1 c2) = isoChars a1 a2 a3 a4 b1 b2 c1 c2"
  "(if drop 10 (isoChars a1 a2 a3 a4 b1 b2 c1 c2 @ ''T00:00:00'') = ''T00:00:00''
    then take 10 (isoChars a1 a2 a3 a4 b1 b2 c1 c2 @ ''T00:00:00'')
    else isoChars a1 a2 a3 a4 b1 b2 c1 c2 @ ''T00:00:00'') = isoChars a1 a2 a3 a4 b1 b2 c1 c2"
  by simp_all

lemma isoChars_fields:
  "take 4 (isoChars a1 a2 a3 a4 b1 b2 c1 c2) = [a1, a2, a3, a4]"
  "take 2 (drop 5 (isoChars a1 a2 a3 a4 b1 b2 c1 c2)) = [b1, b2]"
  "drop 8 (isoChars a1 a2 a3 a4 b1 b2 c1 c2) = [c1, c2]"
  by simp_all

lemma isoText_chars:
  assumes "y < 10000" "m < 100" "d < 100"
  shows "isoText (int y) (int m) (int d) =
     isoChars (digitChar (y div 1000)) (digitChar (y div 100 mod 10)) (digitChar (y div 10 mod 10))
       (digitChar (y mod 10)) (digitChar (m div 10)) (digitChar (m mod 10))
       (digitChar (d div 10)) (digitChar (d mod 10))"
  using assms by (simp add: isoText_def numToString_def pad2 pad4)

lemma newDate_isoText:
  assumes "y < 10000" "m < 100" "d < 100"
  shows "newDate h (isoText (int y) (int m) (int d)) =
     (if 1 \<le> int m \<and> int m \<le> 12 \<and> 1 \<le> int d \<and> int d \<le> daysInMonth (int y) (int m) then
        Some \<lparr>getFullYear = int y, getMonth = int m - 1, getDate = int d, timeOfDay = 0\<rparr>
      else if 1 \<le> int m \<and> int m \<le> 12 \<and> 1 \<le> int d \<and> int d \<le> 31 then
        (if lenientDays h then
           Some \<lparr>getFullYear = int y, getMonth = int m, getDate = int d - daysInMonth (int y) (int m),
                 timeOfDay = 0\<rparr>
         else None)
      else otherParse h (isoText (int y) (int m) (int d)))"
    and "newDate h (isoText (int y) (int m) (int d) @ ''T00:00:00'') =
     (if 1 \<le> int m \<and> int m \<le> 12 \<and> 1 \<le> int d \<and> int d \<le> daysInMonth (int y) (int m) then
        Some \<lparr>getFullYear = int y, getMonth = int m - 1, getDate = int d, timeOfDay = 0\<rparr>
      else if 1 \<le> int m \<and> int m \<le> 12 \<and> 1 \<le> int d \<and> int d \<le> 31 then
        (if lenientDays h then
           Some \<lparr>getFullYear = int y, getMonth = int m, getDate = int d - daysInMonth (int y) (int m),
                 timeOfDay = 0\<rparr>
         else None)
      else otherParse h (isoText (int y) (int m) (int d) @ ''T00:00:00''))"
proof -
  let ?c = "isoChars (digitChar (y div 1000)) (digitChar (y div 100 mod 10)) (digitChar (y div 10 mod 10))
       (digitChar (y mod 10)) (digitChar (m div 10)) (digitChar (m mod 10))
       (digitChar (d div 10)) (digitChar (d mod 10))"
  have t: "isoText (int y) (int m) (int d) = ?c" using assms by (rule isoText_chars)
  have iso: "ISO_DATE_REGEX ?c" using assms by (intro isoChars_ISO digitChar_isDigit) simp_all
  have vals: "digitsToNat [digitChar (y div 1000), digitChar (y div 100 mod 10), digitChar (y div 10 mod 10),
       digitChar (y mod 10)] = y"
    "digitsToNat [digitChar (m div 10), digitChar (m mod 10)] = m"
    "digitsToNat [digitChar (d div 10), digitChar (d mod 10)] = d"
    using assms by (simp_all add: digits4_val digits2_val)
  show "newDate h (isoText (int y) (int m) (int d)) =
     (if 1 \<le> int m \<and> int m \<le> 12 \<and> 1 \<le> int d \<and> int d \<le> daysInMonth (int y) (int m) then
        Some \<lparr>getFullYear = int y, getMonth = int m - 1, getDate = int d, timeOfDay = 0\<rparr>
      else if 1 \<le> int m \<and> int m \<le> 12 \<and> 1 \<le> int d \<and> int d \<le> 31 then
        (if lenientDays h then
           Some \<lparr>getFullYear = int y, getMonth = int m, getDate = int d - daysInMonth (int y) (int m),
                 timeOfDay = 0\<rparr>
         else None)
      else otherParse h (isoText (int y) (int m) (int d)))"
    unfolding t newDate_def isoChars_core Let_def
    by (simp only: iso if_True isoChars_fields vals)
  show "newDate h (isoText (int y) (int m) (int d) @ ''T00:00:00'') =
     (if 1 \<le> int m \<and> int m \<le> 12 \<and> 1 \<le> int d \<and> int d \<le> daysInMonth (int y) (int m) then
        Some \<lparr>getFullYear = int y, getMonth = int m - 1, getDate = int d, timeOfDay = 0\<rparr>
      else if 1 \<le> int m \<and> int m \<le> 12 \<and> 1 \<le> int d \<and> int d \<le> 31 then
        (if lenientDays h then
           Some \<lparr>getFullYear = int y, getMonth = int m, getDate = int d - daysInMonth (int y) (int m),
                 timeOfDay = 0\<rparr>
         else None)
      else otherParse h (isoText (int y) (int m) (int d) @ ''T00:00:00''))"
    unfolding t newDate_def isoChars_core Let_def
    by (simp only: iso if_True isoChars_fields vals)
qed

lemma dash_case: "toLowerChar (CHR ''-'') = CHR ''-''" "toUpperChar (CHR ''-'') = CHR ''-''"
  by (simp_all add: toLowerChar_def toUpperChar_def lowerLetters_def upperLetters_def)

lemma isoChars_lower:
  assumes "isDigit a1" "isDigit a2" "isDigit a3" "isDigit a4" "isDigit b1" "isDigit b2"
    "isDigit c1" "isDigit c2"
  shows "trim (toLowerCase (isoChars a1 a2 a3 a4 b1 b2 c1 c2)) = isoChars a1 a2 a3 a4 b1 b2 c1 c2"
    and "trim (toUpperCase (isoChars a1 a2 a3 a4 b1 b2 c1 c2)) = isoChars a1 a2 a3 a4 b1 b2 c1 c2"
  using assms
  by (simp_all add: trim_def toLowerCase_def toUpperCase_def isDigit_facts dash_case)




lemma daysInMonth_bounds: "28 \<le> daysInMonth y m" "daysInMonth y m \<le> 31"
  by (simp_all add: daysInMonth_def)

lemma isoText_shape:
  assumes "0 \<le> y" "y \<le> 9999" "0 \<le> m" "m \<le> 99" "0 \<le> d" "d \<le> 99"
  shows "ISO_DATE_REGEX (isoText y m d)" "\<not> EUROPEAN_DATE_REGEX (isoText y m d)"
    "isoText y m d \<noteq> []" "CHR ''-'' \<in> set (isoText y m d)"
    "trim (toLowerCase (isoText y m d)) = isoText y m d"
    "trim (toUpperCase (isoText y m d)) = isoText y m d"
proof -
  obtain yn mn dn where n: "y = int yn" "m = int mn" "d = int dn"
    using assms by (metis nonneg_int_cases)
  with assms have b: "yn < 10000" "mn < 100" "dn < 100" by simp_all
  note t = isoText_chars[OF b, folded n]
  have dg: "isDigit (digitChar (yn div 1000))" "isDigit (digitChar (yn div 100 mod 10))"
    "isDigit (digitChar (yn div 10 mod 10))" "isDigit (digitChar (yn mod 10))"
    "isDigit (digitChar (mn div 10))" "isDigit (digitChar (mn mod 10))"
    "isDigit (digitChar (dn div 10))" "isDigit (digitChar (dn mod 10))"
    using b by (simp_all add: digitChar_isDigit)
  show "ISO_DATE_REGEX (isoText y m d)" unfolding t by (rule isoChars_ISO[OF dg])
  show "\<not> EUROPEAN_DATE_REGEX (isoText y m d)" unfolding t by (rule isoChars_not_EUROPEAN[OF dg(1-4)])
  show "isoText y m d \<noteq> []" unfolding t by simp
  show "CHR ''-'' \<in> set (isoText y m d)" unfolding t by simp
  show "trim (toLowerCase (isoText y m d)) = isoText y m d" unfolding t by (rule isoChars_lower[OF dg])
  show "trim (toUpperCase (isoText y m d)) = isoText y m d" unfolding t by (rule isoChars_lower[OF dg])
qed


lemma newDate_valid:
  assumes "0 \<le> y" "y \<le> 9999" "1 \<le> m" "m \<le> 12" "1 \<le> d" "d \<le> daysInMonth y m"
  shows "newDate h (isoText y m d) = Some \<lparr>getFullYear = y, getMonth = m - 1, getDate = d, timeOfDay = 0\<rparr>"
    and "newDate h (isoText y m d @ ''T00:00:00'')
         = Some \<lparr>getFullYear = y, getMonth = m - 1, getDate = d, timeOfDay = 0\<rparr>"
proof -
  have d31: "d \<le> 31" using assms(6) daysInMonth_bounds(2)[of y m] by linarith
  obtain yn mn dn where n: "y = int yn" "m = int mn" "d = int dn"
    using assms by (metis nonneg_int_cases order_trans zero_le_one)
  with assms d31 have b: "yn < 10000" "mn < 100" "dn < 100" by simp_all
  show "newDate h (isoText y m d) = Some \<lparr>getFullYear = y, getMonth = m - 1, getDate = d, timeOfDay = 0\<rparr>"
    using newDate_isoText(1)[OF b, of h] assms by (simp add: n)
  show "newDate h (isoText y m d @ ''T00:00:00'')
         = Some \<lparr>getFullYear = y, getMonth = m - 1, getDate = d, timeOfDay = 0\<rparr>"
    using newDate_isoText(2)[OF b, of h] assms by (simp add: n)
qed

lemma parseDateSafe_valid:
  assumes "0 \<le> y" "y \<le> 9999" "1 \<le> m" "m \<le> 12" "1 \<le> d" "d \<le> daysInMonth y m"
  shows "parseDateSafe h (isoText y m d)
         = Some \<lparr>getFullYear = y, getMonth = m - 1, getDate = d, timeOfDay = 0\<rparr>"
proof -
  have d31: "d \<le> 31" using assms(6) daysInMonth_bounds(2)[of y m] by linarith
  have sh: "ISO_DATE_REGEX (isoText y m d)" "\<not> EUROPEAN_DATE_REGEX (isoText y m d)"
    "isoText y m d \<noteq> []"
    using isoText_shape(1-3)[of y m d] assms d31 by simp_all
  show ?thesis
    unfolding parseDateSafe_def using sh newDate_valid(2)[OF assms, of h] by simp
qed

section \<open>Results about parseTextValue and parseDateSafe\<close>

lemma isDigit_not_initial:
  assumes "isDigit c"
  shows "c \<noteq> CHR ''J''" "c \<noteq> CHR ''F''" "c \<noteq> CHR ''M''" "c \<noteq> CHR ''A''" "c \<noteq> CHR ''S''"
    "c \<noteq> CHR ''O''" "c \<noteq> CHR ''N''" "c \<noteq> CHR ''D''"
  using isDigit_cases[OF assms, simplified] by (safe; simp)+

lemma digit_monthDayPattern: "isDigit c \<Longrightarrow> monthDayPattern (c # cs) = None"
  by (simp add: monthDayPattern_def patternMonthNames_def monthNames_def isPrefix_def
      isDigit_not_initial)

lemma indexOf_absent: "x \<notin> set xs \<Longrightarrow> indexOf xs x = - 1"
  by (induction xs) (auto simp: Let_def)

lemma digit_monthIndexOf:
  assumes "isDigit c"
  shows "monthIndexOf (c # cs) = - 1"
proof -
  have "c # cs \<notin> set monthNames" "c # cs \<notin> set fullMonthNames"
    using assms by (simp_all add: monthNames_def fullMonthNames_def isDigit_not_initial)
  then show ?thesis by (simp add: monthIndexOf_def indexOf_absent)
qed

lemma digits4_dayMonthPattern:
  "isDigit a \<Longrightarrow> isDigit b \<Longrightarrow> isDigit c \<Longrightarrow> dayMonthPattern (a # b # c # cs) = None"
  by (simp add: dayMonthPattern_def Let_def)



theorem parseTextValue_iso_empty:
  assumes "0 \<le> y" "y \<le> 9999" "0 \<le> m" "m \<le> 99" "0 \<le> d" "d \<le> 99"
  shows "parseTextValue h (isoText y m d) isEnd ry = []"
proof -
  obtain yn mn dn where n: "y = int yn" "m = int mn" "d = int dn"
    using assms by (metis nonneg_int_cases)
  with assms have b: "yn < 10000" "mn < 100" "dn < 100" by simp_all
  note t = isoText_chars[OF b, folded n]
  have dg: "isDigit (digitChar (yn div 1000))" "isDigit (digitChar (yn div 100 mod 10))"
    "isDigit (digitChar (yn div 10 mod 10))" "isDigit (digitChar (yn mod 10))"
    using b by (simp_all add: digitChar_isDigit)
  have u: "trim (toUpperCase (isoText y m d)) = isoText y m d"
    and ne: "\<not> EUROPEAN_DATE_REGEX (isoText y m d)"
    using isoText_shape[OF assms] by simp_all
  have p: "monthDayPattern (isoText y m d) = None" "dayMonthPattern (isoText y m d) = None"
    "monthIndexOf (isoText y m d) = - 1"
    unfolding t using dg
    by (simp_all add: digit_monthDayPattern digit_monthIndexOf digits4_dayMonthPattern)
  show ?thesis
    unfolding parseTextValue_def u Let_def p using ne by simp
qed

text \<open>
  C6, as the code has it. For every valid calendar date with a year from 0000 to 9999,
  \<open>parseDateSafe\<close> reads the text \<^verbatim>\<open>YYYY-MM-DD\<close> of the date back as exactly that
  date, on every host. \<open>parseTextValue\<close>, the parser that takes the roadmap year and
  the field role, does not accept the text: for every roadmap year and both roles its
  result is the empty string.
\<close>

theorem parseDateSafe_iso_roundtrip:
  assumes "0 \<le> y" "y \<le> 9999" "1 \<le> m" "m \<le> 12" "1 \<le> d" "d \<le> daysInMonth y m"
  shows "parseDateSafe h (isoText y m d)
           = Some \<lparr>getFullYear = y, getMonth = m - 1, getDate = d, timeOfDay = 0\<rparr>
         \<and> parseTextValue h (isoText y m d) isEndDateField roadmapYearArg = []"
proof -
  have "d \<le> 31" using assms(6) daysInMonth_bounds(2)[of y m] by linarith
  with assms show ?thesis
    by (simp add: parseDateSafe_valid parseTextValue_iso_empty)
qed

lemma isoText_example: "isoText 2025 1 15 = ''2025-01-15''"
  by (simp add: isoText_def padStart_def numToString_def natToDigits.simps digitChar_def digitChars_def)

theorem parseDateSafe_iso_roundtrip_witness:
  "(0::int) \<le> 2025 \<and> (2025::int) \<le> 9999 \<and> (1::int) \<le> 1 \<and> (1::int) \<le> 12 \<and> (1::int) \<le> 15
   \<and> 15 \<le> daysInMonth 2025 1
   \<and> parseDateSafe \<lparr>lenientDays = True, otherParse = Map.empty, nowYear = 2026\<rparr> ''2025-01-15''
       = Some \<lparr>getFullYear = 2025, getMonth = 0, getDate = 15, timeOfDay = 0\<rparr>
   \<and> parseTextValue \<lparr>lenientDays = True, otherParse = Map.empty, nowYear = 2026\<rparr> ''2025-01-15''
         True (Some 2025) = []"
proof -
  have v: "15 \<le> daysInMonth 2025 1" by (simp add: daysInMonth_def)
  from parseDateSafe_iso_roundtrip[of 2025 1 15 "\<lparr>lenientDays = True, otherParse = Map.empty, nowYear = 2026\<rparr>" True "Some 2025"] v
  show ?thesis by (simp add: isoText_example)
qed

text \<open>
  C6 as stated fails: normalisation with a roadmap year and a field role is
  \<open>parseTextValue\<close>, and on \<^verbatim>\<open>2025-01-15\<close> it does not return that date.
\<close>

theorem parseTextValue_iso_counterexample:
  "parseTextValue \<lparr>lenientDays = True, otherParse = Map.empty, nowYear = 2026\<rparr> ''2025-01-15''
      False (Some 2025) \<noteq> ''2025-01-15''"
  using parseTextValue_iso_empty[of 2025 1 15 "\<lparr>lenientDays = True, otherParse = Map.empty, nowYear = 2026\<rparr>" False "Some 2025"]
  by (simp add: isoText_example)

lemma rollDays_in_range: "1 \<le> d \<Longrightarrow> d \<le> daysInMonth y m \<Longrightarrow> rollDays y m d = (y, m, d)"
  by (simp add: rollDays.simps)

lemma rollDays_zero:
  "rollDays y m 0 = (let y' = (if m \<le> 1 then y - 1 else y); m' = (if m \<le> 1 then 12 else m - 1)
                     in (y', m', daysInMonth y' m'))"
proof -
  have "28 \<le> daysInMonth y' m'" for y' m' by (rule daysInMonth_bounds)
  then have r: "rollDays y' m' (daysInMonth y' m') = (y', m', daysInMonth y' m')" for y' m'
    by (intro rollDays_in_range) (simp_all add: order_trans[of 1 28])
  show ?thesis
    by (subst rollDays.simps) (simp add: Let_def r)
qed

lemma isLeapYear_1900:
  assumes "1 \<le> y" "y \<le> 99"
  shows "isLeapYear (1900 + y) = isLeapYear y"
proof -
  have e: "1900 + y = y + 4 * 475" "1900 + y = y + 100 * 19" "1900 + y = (300 + y) + 400 * 4"
    by simp_all
  have a: "(1900 + y) mod 4 = y mod 4" by (simp only: e(1) mod_mult_self2)
  have b: "(1900 + y) mod 100 = y mod 100" by (simp only: e(2) mod_mult_self2)
  have c: "(1900 + y) mod 400 = (300 + y) mod 400" by (simp only: e(3) mod_mult_self2)
  have d: "y mod 100 = y" "y mod 400 = y" "(300 + y) mod 400 = 300 + y"
    using assms by simp_all
  show ?thesis unfolding isLeapYear_def a b c d using assms by simp
qed

lemma lastDay_of_month:
  assumes "1 \<le> m" "m \<le> 12" "y \<noteq> 0"
  shows "getDate (dateFromYMD y m 0) = daysInMonth y m"
proof -
  define y' where "y' = (if 0 \<le> y \<and> y \<le> 99 then 1900 + y else y)"
  have dim: "daysInMonth y' m = daysInMonth y m"
    using assms(3) by (auto simp: y'_def daysInMonth_def isLeapYear_1900)
  have "getDate (makeDate y' m 0 0) = daysInMonth y' m"
  proof (cases "m = 12")
    case True
    then show ?thesis by (simp add: makeDate_def rollDays_zero Let_def)
  next
    case False
    with assms have "m div 12 = 0" "m mod 12 = m" by simp_all
    with assms show ?thesis by (simp add: makeDate_def rollDays_zero Let_def)
  qed
  then show ?thesis by (simp add: dateFromYMD_def y'_def[symmetric] dim)
qed

lemma short_name_patterns:
  assumes "i < 12"
  shows "monthDayPattern (monthNames ! i) = None" "dayMonthPattern (monthNames ! i) = None"
    "monthIndexOf (monthNames ! i) = int i" "monthNames ! i \<noteq> []"
  using lt12_cases[OF assms]
  by (safe; simp add: monthDayPattern_def dayMonthPattern_def monthIndexOf_def monthNames_def
        fullMonthNames_def patternMonthNames_def isPrefix_def monthDayTail_def Let_def isDigit_def
        digitChars_def isSpace_def)+

lemma full_name_patterns:
  assumes "i < 12"
  shows "monthDayPattern (fullMonthNames ! i) = None" "dayMonthPattern (fullMonthNames ! i) = None"
    "monthIndexOf (fullMonthNames ! i) = int i" "fullMonthNames ! i \<noteq> []"
  using lt12_cases[OF assms]
  by (safe; simp add: monthDayPattern_def dayMonthPattern_def monthIndexOf_def monthNames_def
        fullMonthNames_def patternMonthNames_def isPrefix_def monthDayTail_def Let_def isDigit_def
        digitChars_def isSpace_def)+


text \<open>
  C7. A value that is, up to case and surrounding white space, a three-letter or full
  month name and nothing else, with an explicit roadmap year \<open>y\<close>: in the start role
  the result is day 1 of that month of \<open>y\<close>, in the end role it is the last calendar day
  of that month of \<open>y\<close>, 29 February in a leap year. The result is the text the code
  builds, \<^verbatim>\<open>`${currentYear}-${MM}-${DD}`\<close>.
\<close>

theorem parseTextValue_bare_month:
  assumes "i < 12"
    and "trim (toUpperCase v) = monthNames ! i \<or> trim (toUpperCase v) = fullMonthNames ! i"
    and "y \<noteq> 0"
  shows "parseTextValue h v False (Some y) = isoString y (int i + 1) 1
         \<and> parseTextValue h v True (Some y) = isoString y (int i + 1) (daysInMonth y (int i + 1))"
proof -
  have ne: "v \<noteq> []"
    using assms(2) short_name_patterns(4)[OF assms(1)] full_name_patterns(4)[OF assms(1)]
    by (auto simp: trim_def toUpperCase_def)
  have p: "monthDayPattern (trim (toUpperCase v)) = None"
    "dayMonthPattern (trim (toUpperCase v)) = None"
    "monthIndexOf (trim (toUpperCase v)) = int i"
    using assms(2) short_name_patterns[OF assms(1)] full_name_patterns[OF assms(1)] by auto
  have l: "getDate (dateFromYMD y (int i + 1) 0) = daysInMonth y (int i + 1)"
    using assms(1,3) by (intro lastDay_of_month) simp_all
  show ?thesis
    using ne assms(3) by (simp add: parseTextValue_def Let_def p l yearOrNow_def)
qed

lemma aug_upper: "trim (toUpperCase ''AUG'') = monthNames ! 7"
  by (simp add: trim_def toUpperCase_def toUpperChar_def lowerLetters_def upperLetters_def
      isSpace_def monthNames_def)

theorem parseTextValue_bare_month_witness:
  "(7::nat) < 12 \<and> trim (toUpperCase ''AUG'') = monthNames ! 7 \<and> (2025::int) \<noteq> 0
   \<and> parseTextValue \<lparr>lenientDays = True, otherParse = Map.empty, nowYear = 2026\<rparr> ''AUG''
         False (Some 2025) = ''2025-08-01''
   \<and> parseTextValue \<lparr>lenientDays = True, otherParse = Map.empty, nowYear = 2026\<rparr> ''AUG''
         True (Some 2025) = ''2025-08-31''"
proof -
  have i: "(7::nat) < 12" and y: "(2025::int) \<noteq> 0" by simp_all
  have t: "isoString 2025 (int 7 + 1) 1 = ''2025-08-01''"
    "isoString 2025 (int 7 + 1) (daysInMonth 2025 (int 7 + 1)) = ''2025-08-31''"
    by (simp_all add: isoString_def daysInMonth_def padStart_def numToString_def natToDigits.simps
        digitChar_def digitChars_def)
  from parseTextValue_bare_month[OF i disjI1[OF aug_upper] y,
      of "\<lparr>lenientDays = True, otherParse = Map.empty, nowYear = 2026\<rparr>"]
  show ?thesis by (simp only: t aug_upper i y simp_thms)
qed




lemma isoString_isoText: "1000 \<le> y \<Longrightarrow> y \<le> 9999 \<Longrightarrow> isoString y m d = isoText y m d"
proof -
  assume a: "1000 \<le> y" "y \<le> 9999"
  then have "length (natToDigits (nat y)) = 4" by (subst natToDigits_4) simp_all
  with a show ?thesis by (simp add: isoString_def isoText_def padStart_def numToString_def)
qed


lemma newDate_isoString_nf:
  assumes "1000 \<le> Y" "Y \<le> 9999" "1 \<le> mo" "mo \<le> 12" "1 \<le> da" "da \<le> 31"
  shows "newDate h (numToString Y @ CHR ''-'' # padStart 2 (numToString mo) @ CHR ''-'' #
                    padStart 2 (numToString da)) =
     (if da \<le> daysInMonth Y mo then
        Some \<lparr>getFullYear = Y, getMonth = mo - 1, getDate = da, timeOfDay = 0\<rparr>
      else if lenientDays h then
        Some \<lparr>getFullYear = Y, getMonth = mo, getDate = da - daysInMonth Y mo, timeOfDay = 0\<rparr>
      else None)"
proof -
  obtain yn mn dn where n: "Y = int yn" "mo = int mn" "da = int dn"
    using assms by (metis nonneg_int_cases order_trans zero_le_one zero_le_numeral)
  with assms have b: "yn < 10000" "mn < 100" "dn < 100" by simp_all
  have "isoString Y mo da = isoText Y mo da" using assms by (simp add: isoString_isoText)
  then have "newDate h (isoString Y mo da) =
     (if da \<le> daysInMonth Y mo then
        Some \<lparr>getFullYear = Y, getMonth = mo - 1, getDate = da, timeOfDay = 0\<rparr>
      else if lenientDays h then
        Some \<lparr>getFullYear = Y, getMonth = mo, getDate = da - daysInMonth Y mo, timeOfDay = 0\<rparr>
      else None)"
    using newDate_isoText(1)[OF b, of h] assms by (simp add: n)
  then show ?thesis by (simp add: isoString_def)
qed









section \<open>Results about generateStory\<close>








lemma truthy_Some: "truthy (Some v) = (v \<noteq> [])"
  by (simp add: truthy_def)



lemma generateStory_box:
  assumes "generateStory g h s = Inr (Some box, s')"
  obtains sg eg where "resolveStartGrid g h s = Inr (sg, s')"
    and "resolveEndGrid g h s sg = Inr eg"
    and "box = \<lparr>startGrid = (if storyStartsBeforeRange g h s'
                               then getGridPosition h (Some ''JAN'') getMonthGridPosition else sg),
                  endGrid = (if storyContinuesNextYear g h s'
                             then getGridPosition h (Some ''DEC'') getMonthGridPosition + 10 else eg),
                  continuesNextYear = storyContinuesNextYear g h s',
                  startsBeforeRange = storyStartsBeforeRange g h s',
                  continuation = continuationIndicator g h s' (storyContinuesNextYear g h s')\<rparr>"
    and "shouldDisplayStory g h s"
  using assms
  by (auto simp: generateStory_def Let_def split: if_splits sum.splits prod.splits)
















lemma resolveStartGrid_end_fields:
  assumes "resolveStartGrid g h s = Inr (sg, s')"
  shows "endDate s' = endDate s"
  using assms
  by (auto simp: resolveStartGrid_def Let_def split: if_splits option.splits sum.splits)








lemma getMonthGridPosition_pos: "1 \<le> getMonthGridPosition n"
proof (cases "map_of GRID_POSITIONS (toUpperCase n)")
  case None
  then show ?thesis by (simp add: getMonthGridPosition_def)
next
  case (Some p)
  then have "(toUpperCase n, p) \<in> set GRID_POSITIONS" by (rule map_of_SomeD)
  moreover have "\<forall>e \<in> set GRID_POSITIONS. 1 \<le> snd e" by (simp add: GRID_POSITIONS_def)
  ultimately have "1 \<le> p" by fastforce
  with Some show ?thesis by (simp add: getMonthGridPosition_def)
qed

lemma dateToGrid_pos: "1 \<le> dateToGrid h s getMonthGridPosition"
  using getMonthGridPosition_pos
  by (auto simp: dateToGrid_def Let_def add_increasing2 split: option.splits)

lemma dateToGrid_mid:
  assumes "newDate h s = Some D" "4 \<le> getDate D"
  shows "4 \<le> dateToGrid h s getMonthGridPosition"
  using assms getMonthGridPosition_pos[of "getMonthName (getMonth D + 1)"]
  by (auto simp: dateToGrid_def Let_def)

lemma getGridPosition_pos: "1 \<le> getGridPosition h v getMonthGridPosition"
  using getMonthGridPosition_pos dateToGrid_pos
  by (auto simp: getGridPosition_def split: option.splits)

lemma resolveStartGrid_pos:
  assumes "resolveStartGrid g h s = Inr (sg, s')"
  shows "1 \<le> sg"
proof (cases "truthy (startDate s)")
  case False
  with assms show ?thesis
    using getMonthGridPosition_pos
    by (auto simp: resolveStartGrid_def Let_def monthToGrid_def split: option.splits sum.splits)
next
  case True
  define iso where "iso = (if EUROPEAN_DATE_REGEX (strVal (startDate s))
       then convertEuropeanToISO h (strVal (startDate s)) (Some (roadmapYear g))
       else strVal (startDate s))"
  show ?thesis
  proof (cases "newDate h iso")
    case None
    with assms True show ?thesis
      using getGridPosition_pos
      by (auto simp: resolveStartGrid_def Let_def iso_def[symmetric])
  next
    case (Some D)
    have m: "4 \<le> dateToGrid h iso getMonthGridPosition" if "4 \<le> getDate D"
      using Some that by (rule dateToGrid_mid)
    from assms True Some show ?thesis
      using getGridPosition_pos[of h] getMonthGridPosition_pos dateToGrid_pos[of h] m
      by (auto simp: resolveStartGrid_def Let_def iso_def[symmetric] monthToGrid_def
          split: if_splits option.splits sum.splits)
  qed
qed


lemma truthy_strVal: "truthy v \<Longrightarrow> strVal v \<noteq> []"
  by (cases v) (simp_all add: truthy_def strVal_def)

lemma no_effective_end:
  assumes "\<not> truthy (getEffectiveEndDate h s)"
  shows "\<not> truthy (endDate s)"
proof -
  have o: "\<not> truthy (endDate s)" if "\<not> truthy (orElse (endDate s) (endMonth s))"
    using that by (cases "truthy (endDate s)") (simp_all add: orElse_def)
  show ?thesis
  proof (cases "changes s = []")
    case True
    with assms show ?thesis by (intro o) (simp add: getEffectiveEndDate_def)
  next
    case False
    show ?thesis
    proof (cases "sortBy (\<lambda>a b. compareDates h (changeDate b) (changeDate a)) (changes s)")
      case Nil
      with assms False show ?thesis by (intro o) (simp add: getEffectiveEndDate_def)
    next
      case (Cons c rest)
      show ?thesis
      proof (cases "truthy (newEndDate c)")
        case True
        then have "strVal (newEndDate c) \<noteq> []" by (rule truthy_strVal)
        then have "truthy (getEffectiveEndDate h s)"
          using False Cons True
          by (simp add: getEffectiveEndDate_def Let_def truthy_Some toUpperCase_def)
        with assms show ?thesis by simp
      next
        case f: False
        with assms False Cons show ?thesis by (intro o) (simp add: getEffectiveEndDate_def)
      qed
    qed
  qed
qed

lemma jan_column: "getGridPosition h (Some ''JAN'') getMonthGridPosition = 1"
  by (simp add: getGridPosition_def ISO_DATE_REGEX_def EUROPEAN_DATE_REGEX_def Let_def isDigit_def
      digitChars_def getMonthGridPosition_def toUpperCase_def toUpperChar_def lowerLetters_def
      upperLetters_def GRID_POSITIONS_def)

text \<open>
  C5, as the code has it. When a story has no end value in effect (no end date, no end
  month, no new end from a timeline change), the end column of its bar is the resolved
  start column plus 10, and the bar is at least 10 columns wide: its end column is
  strictly greater than its start column.
\<close>

theorem generateStory_default_end:
  assumes "\<not> truthy (getEffectiveEndDate h s)"
    and "generateStory g h s = Inr (Some box, s')"
  shows "startGrid box < endGrid box \<and> startGrid box + 10 \<le> endGrid box
         \<and> (\<exists>sg. resolveStartGrid g h s = Inr (sg, s') \<and> endGrid box = sg + 10)"
proof -
  from assms(2) obtain sg eg where 1: "resolveStartGrid g h s = Inr (sg, s')"
    and 2: "resolveEndGrid g h s sg = Inr eg"
    and 3: "box = \<lparr>startGrid = (if storyStartsBeforeRange g h s'
                               then getGridPosition h (Some ''JAN'') getMonthGridPosition else sg),
                  endGrid = (if storyContinuesNextYear g h s'
                             then getGridPosition h (Some ''DEC'') getMonthGridPosition + 10 else eg),
                  continuesNextYear = storyContinuesNextYear g h s',
                  startsBeforeRange = storyStartsBeforeRange g h s',
                  continuation = continuationIndicator g h s' (storyContinuesNextYear g h s')\<rparr>"
    by (rule generateStory_box)
  from 2 assms(1) have eg: "eg = sg + 10" by (simp add: resolveEndGrid_def Let_def)
  have "\<not> truthy (endDate s')"
    using no_effective_end[OF assms(1)] resolveStartGrid_end_fields[OF 1] by simp
  then have nc: "\<not> storyContinuesNextYear g h s'" by (simp add: storyContinuesNextYear_def)
  have p: "1 \<le> sg" using 1 by (rule resolveStartGrid_pos)
  from 3 nc have e: "endGrid box = sg + 10" by (simp add: eg)
  from 3 have "startGrid box = sg \<or> startGrid box = 1" by (simp add: jan_column)
  with e p 1 show ?thesis by auto
qed

lemma example_no_end:
  "generateStory roadmap2025 lenientHost (storyFromTo (Some ''2025-01-15'') None)
   = Inr (Some \<lparr>startGrid = 5, endGrid = 15, continuesNextYear = False, startsBeforeRange = False,
                continuation = None\<rparr>,
          storyFromTo (Some ''2025-01-15'') None)"
  by code_simp

theorem generateStory_default_end_witness:
  "\<not> truthy (getEffectiveEndDate lenientHost (storyFromTo (Some ''2025-01-15'') None))
   \<and> generateStory roadmap2025 lenientHost (storyFromTo (Some ''2025-01-15'') None)
       = Inr (Some \<lparr>startGrid = 5, endGrid = 15, continuesNextYear = False,
                    startsBeforeRange = False, continuation = None\<rparr>,
              storyFromTo (Some ''2025-01-15'') None)
   \<and> (5::int) < 15 \<and> (5::int) + 10 \<le> 15"
proof -
  have n: "\<not> truthy (getEffectiveEndDate lenientHost (storyFromTo (Some ''2025-01-15'') None))"
    by (simp add: getEffectiveEndDate_def storyFromTo_def orElse_def truthy_def)
  from generateStory_default_end[OF n example_no_end] n example_no_end
  show ?thesis by simp
qed

text \<open>
  C5 as stated fails: a story from 28 January to 3 February 2025 starts at February's
  base column (day 28 counts as the first of the next month) and ends at January's base
  column plus 10 (day 3 counts as the end of the previous month): both are column 11,
  a span of width zero.
\<close>

theorem generateStory_zero_width_counterexample:
  "generateStory roadmap2025 lenientHost (storyFromTo (Some ''2025-01-28'') (Some ''2025-02-03''))
   = Inr (Some \<lparr>startGrid = 11, endGrid = 11, continuesNextYear = False, startsBeforeRange = False,
                continuation = None\<rparr>,
          storyFromTo (Some ''2025-01-28'') (Some ''2025-02-03''))
   \<and> \<not> startGrid \<lparr>startGrid = 11, endGrid = 11, continuesNextYear = False,
                    startsBeforeRange = False, continuation = None\<rparr>
         < endGrid \<lparr>startGrid = 11, endGrid = 11, continuesNextYear = False,
                    startsBeforeRange = False, continuation = None\<rparr>"
proof -
  have "generateStory roadmap2025 lenientHost (storyFromTo (Some ''2025-01-28'') (Some ''2025-02-03''))
   = Inr (Some \<lparr>startGrid = 11, endGrid = 11, continuesNextYear = False, startsBeforeRange = False,
                continuation = None\<rparr>,
          storyFromTo (Some ''2025-01-28'') (Some ''2025-02-03''))"
    by code_simp
  then show ?thesis by simp
qed










end
